theory Spec2Isabelle
  imports Complex_Main
begin

section \<open>Python strings\<close>

text \<open>
  Strings are \<^typ>\<open>string\<close>. A character beyond ASCII is the sequence of its UTF-8 bytes; the
  helpers below change or test ASCII characters only and leave every other byte alone, which
  is what the source's \<^verbatim>\<open>lower()\<close>, \<^verbatim>\<open>strip()\<close> and \<^verbatim>\<open>split()\<close> do on ASCII text.
\<close>

definition lower_char :: "char \<Rightarrow> char" where
  "lower_char c =
     (case map_of (zip ''ABCDEFGHIJKLMNOPQRSTUVWXYZ'' ''abcdefghijklmnopqrstuvwxyz'') c of
        Some l \<Rightarrow> l
      | None \<Rightarrow> c)"

definition py_lower :: "string \<Rightarrow> string" where
  "py_lower s = map lower_char s"

fun starts_with :: "string \<Rightarrow> string \<Rightarrow> bool" where
  "starts_with [] hay = True"
| "starts_with (x # xs) [] = False"
| "starts_with (x # xs) (y # ys) = (x = y \<and> starts_with xs ys)"

text \<open>\<^verbatim>\<open>needle in hay\<close> on strings: \<open>needle\<close> occurs as a contiguous substring.\<close>

fun py_in :: "string \<Rightarrow> string \<Rightarrow> bool" where
  "py_in needle [] = (needle = [])"
| "py_in needle (c # cs) = (starts_with needle (c # cs) \<or> py_in needle cs)"

text \<open>\<^verbatim>\<open>any(keyword in text for keyword in keywords)\<close>.\<close>

fun any_keyword_in :: "string list \<Rightarrow> string \<Rightarrow> bool" where
  "any_keyword_in [] s = False"
| "any_keyword_in (k # ks) s = (py_in k s \<or> any_keyword_in ks s)"

section \<open>Task classification (\<^verbatim>\<open>TaskSolver._analyze_task\<close>)\<close>

datatype task_type = path_addition | python_setup | package_installation | system_command | unknown

record task_analysis =
  task_type :: task_type
  confidence :: real

definition path_keywords :: "string list" where
  "path_keywords = [''add to path'', ''path'', ''environment variable'', ''env'']"

definition python_keywords :: "string list" where
  "python_keywords = [''python'', ''pip'', ''virtual environment'', ''venv'']"

definition install_keywords :: "string list" where
  "install_keywords = [''install'', ''package'', ''pip install'']"

definition command_keywords :: "string list" where
  "command_keywords = [''run'', ''execute'', ''command'', ''cmd'', ''powershell'']"

definition analyze_task :: "string \<Rightarrow> string \<Rightarrow> task_analysis" where
  "analyze_task task_description context =
     (let task_lower = py_lower task_description in
      if any_keyword_in path_keywords task_lower
        then \<lparr>task_type = path_addition, confidence = 9 / 10\<rparr>
      else if any_keyword_in python_keywords task_lower
        then \<lparr>task_type = python_setup, confidence = 8 / 10\<rparr>
      else if any_keyword_in install_keywords task_lower
        then \<lparr>task_type = package_installation, confidence = 8 / 10\<rparr>
      else if any_keyword_in command_keywords task_lower
        then \<lparr>task_type = system_command, confidence = 7 / 10\<rparr>
      else \<lparr>task_type = unknown, confidence = 0\<rparr>)"

text \<open>
  The classifier as the specification words it: a priority table of keyword sets, each with
  its type and confidence; the first set with a member occurring in the lower-cased text
  wins, and no match is \<open>unknown\<close> with confidence 0.
\<close>

definition priority_table :: "(string list \<times> task_type \<times> real) list" where
  "priority_table =
     [(path_keywords, path_addition, 9 / 10),
      (python_keywords, python_setup, 8 / 10),
      (install_keywords, package_installation, 8 / 10),
      (command_keywords, system_command, 7 / 10)]"

fun first_match :: "(string list \<times> task_type \<times> real) list \<Rightarrow> string \<Rightarrow> task_analysis" where
  "first_match [] s = \<lparr>task_type = unknown, confidence = 0\<rparr>"
| "first_match ((kws, ty, conf) # rest) s =
     (if any_keyword_in kws s then \<lparr>task_type = ty, confidence = conf\<rparr> else first_match rest s)"

definition classify_spec :: "string \<Rightarrow> task_analysis" where
  "classify_spec task_text = first_match priority_table (py_lower task_text)"

section \<open>Python values, dictionaries and exceptions\<close>

text \<open>
  A dictionary is an association list in insertion order; \<^verbatim>\<open>d[k] = v\<close> overwrites the value of
  a key that is present in place and appends a new key at the end, and \<^verbatim>\<open>d.update(...)\<close> does so
  for each pair in turn.
\<close>

datatype pyval =
    VStr string
  | VInt int
  | VBool bool
  | VList "pyval list"
  | VDict "(string \<times> pyval) list"

type_synonym pydict = "(string \<times> pyval) list"

fun dict_set :: "string \<Rightarrow> pyval \<Rightarrow> pydict \<Rightarrow> pydict" where
  "dict_set k v [] = [(k, v)]"
| "dict_set k v ((k', v') # d) = (if k' = k then (k, v) # d else (k', v') # dict_set k v d)"

fun dict_update :: "pydict \<Rightarrow> pydict \<Rightarrow> pydict" where
  "dict_update d [] = d"
| "dict_update d ((k, v) # kvs) = dict_update (dict_set k v d) kvs"

definition dict_get :: "pydict \<Rightarrow> string \<Rightarrow> pyval option" where
  "dict_get d k = map_of d k"

text \<open>
  The exceptions the modelled code can meet; all derive from \<^verbatim>\<open>Exception\<close>, so
  \<^verbatim>\<open>except Exception as e\<close> catches each of them and \<^verbatim>\<open>str(e)\<close> is its message.
\<close>

datatype py_exception =
    ValueError string
  | TimeoutExpired string
  | OtherException string

fun exc_str :: "py_exception \<Rightarrow> string" where
  "exc_str (ValueError m) = m"
| "exc_str (TimeoutExpired m) = m"
| "exc_str (OtherException m) = m"

section \<open>Task execution (\<^verbatim>\<open>TaskExecutor.run_command\<close>)\<close>

text \<open>
  \<^verbatim>\<open>subprocess.run\<close> is the operating system's: it is a parameter that either returns a
  completed process or raises.
\<close>

record completed_process =
  returncode :: int
  stdout :: string
  stderr :: string

type_synonym subprocess_run = "string \<Rightarrow> bool \<Rightarrow> int \<Rightarrow> py_exception + completed_process"

definition run_command :: "subprocess_run \<Rightarrow> string \<Rightarrow> bool \<Rightarrow> int \<Rightarrow> py_exception + pydict" where
  "run_command run command shell timeout =
     (case run command shell timeout of
        Inr result \<Rightarrow>
          Inr [(''success'', VBool (returncode result = 0)),
               (''returncode'', VInt (returncode result)),
               (''stdout'', VStr (stdout result)),
               (''stderr'', VStr (stderr result))]
      | Inl (TimeoutExpired m) \<Rightarrow>
          Inr [(''success'', VBool False), (''error'', VStr ''Command timed out''),
               (''timeout'', VBool True)]
      | Inl e \<Rightarrow>
          Inr [(''success'', VBool False), (''error'', VStr (exc_str e))])"

section \<open>The Python set-up resolver (\<^verbatim>\<open>TaskSolver._solve_python_setup_task\<close>)\<close>







section \<open>The conversation orchestrator (\<^verbatim>\<open>EnhancedChatSession\<close>)\<close>

text \<open>
  The session holds its two optional collaborators. The knowledge base is used through
  \<^verbatim>\<open>get_context_for_query(query, max_chunks)\<close>; the task solver through the report that the
  try block of \<^verbatim>\<open>_handle_task_request\<close> formats from its result. The two enabled flags are
  set by the constructor from \<^verbatim>\<open>is not None\<close>.
\<close>

record enhanced_chat_session =
  rag_system :: "(string \<Rightarrow> nat \<Rightarrow> py_exception + string) option"
  task_solver :: "(string \<Rightarrow> string) option"
  current_topic :: "string option"

definition knowledge_base_enabled :: "enhanced_chat_session \<Rightarrow> bool" where
  "knowledge_base_enabled s = (rag_system s \<noteq> None)"

definition task_automation_enabled :: "enhanced_chat_session \<Rightarrow> bool" where
  "task_automation_enabled s = (task_solver s \<noteq> None)"

type_synonym stream_chat = "string \<Rightarrow> py_exception + string list"

definition task_keywords :: "string list" where
  "task_keywords =
     [''add to path'', ''install'', ''run command'', ''execute'', ''setup python'',
      ''create virtual environment'', ''install package'', ''configure'',
      ''set up'', ''fix'', ''solve'', ''do this'', ''help me with'']"

definition is_task_request :: "string \<Rightarrow> bool" where
  "is_task_request message = any_keyword_in task_keywords (py_lower message)"

definition handle_task_request :: "enhanced_chat_session \<Rightarrow> string \<Rightarrow> string" where
  "handle_task_request s user_message =
     (case task_solver s of
        None \<Rightarrow> ''Task automation is not available. Please enable it first.''
      | Some report \<Rightarrow> report user_message)"

text \<open>\<^verbatim>\<open>sep.join(parts)\<close>.\<close>

fun py_join :: "string \<Rightarrow> string list \<Rightarrow> string" where
  "py_join sep [] = []"
| "py_join sep [x] = x"
| "py_join sep (x # y # ys) = x @ sep @ py_join sep (y # ys)"

definition newline :: string where
  "newline = [CHR 0x0A]"

definition create_enhanced_prompt :: "enhanced_chat_session \<Rightarrow> string \<Rightarrow> string \<Rightarrow> string" where
  "create_enhanced_prompt s user_message context =
     py_join newline
       ([''You are Terminal Jarvis, an AI assistant with access to a knowledge base and task automation capabilities.'',
         ''You can help with programming, system administration, and general questions.'']
        @ (if context \<noteq> []
           then [newline @ ''**Relevant Information from Knowledge Base:**'' @ newline @ context]
           else [])
        @ (case current_topic s of
             None \<Rightarrow> []
           | Some topic \<Rightarrow> (if topic \<noteq> [] then [newline @ ''**Current Topic:** '' @ topic] else []))
        @ [newline @ ''**User Question:** '' @ user_message,
           newline @ ''**Instructions:**'',
           ''- Provide helpful, accurate information'',
           ''- If you can perform a task automatically, mention it'',
           ''- Use the knowledge base information to enhance your response'',
           ''- Be concise but thorough''])"

definition kb_note :: string where
  "kb_note = newline @ newline
     @ ''*This response was enhanced with information from the knowledge base.*''"

definition task_hint :: string where
  "task_hint = newline @ newline
     @ ''*I can help automate tasks like adding to PATH, installing packages, or running commands. Just ask!*''"

definition post_process_response :: "enhanced_chat_session \<Rightarrow> string \<Rightarrow> string \<Rightarrow> string" where
  "post_process_response s response user_message =
     (let response1 =
            (if knowledge_base_enabled s \<and> py_in ''knowledge base'' (py_lower response)
             then response @ kb_note else response);
          response2 =
            (if task_automation_enabled s \<and> is_task_request user_message
             then response1 @ task_hint else response1)
      in response2)"

text \<open>
  The body of the try block of \<^verbatim>\<open>get_enhanced_response\<close>, with the retrieved context returned
  beside the reply so that theorems can speak about it; an exception from the knowledge base
  or from the model is \<open>Inl\<close>.
\<close>

definition answer_path :: "enhanced_chat_session \<Rightarrow> stream_chat \<Rightarrow> string \<Rightarrow> py_exception + (string \<times> string)" where
  "answer_path s llm user_message =
     (case (case rag_system s of
              None \<Rightarrow> Inr []
            | Some get_context_for_query \<Rightarrow> get_context_for_query user_message 3) of
        Inl e \<Rightarrow> Inl e
      | Inr context \<Rightarrow>
          (case llm (create_enhanced_prompt s user_message context) of
             Inl e \<Rightarrow> Inl e
           | Inr response_parts \<Rightarrow>
               Inr (context, post_process_response s (concat response_parts) user_message)))"

definition get_enhanced_response :: "enhanced_chat_session \<Rightarrow> stream_chat \<Rightarrow> string \<Rightarrow> string" where
  "get_enhanced_response s llm user_message =
     (if is_task_request user_message then handle_task_request s user_message
      else (case answer_path s llm user_message of
              Inl e \<Rightarrow> ''I encountered an error while processing your request: '' @ exc_str e
            | Inr (context, response) \<Rightarrow> response))"


section \<open>Whitespace, \<^verbatim>\<open>strip\<close>, \<^verbatim>\<open>split\<close>, slices and \<^verbatim>\<open>range\<close>\<close>

text \<open>The ASCII characters for which \<^verbatim>\<open>str.isspace\<close> holds: codes 9 to 13 and 28 to 32.\<close>

definition is_space :: "char \<Rightarrow> bool" where
  "is_space c = (let n = (of_char c :: nat) in (9 \<le> n \<and> n \<le> 13) \<or> (28 \<le> n \<and> n \<le> 32))"

definition py_strip :: "string \<Rightarrow> string" where
  "py_strip s = rev (dropWhile is_space (rev (dropWhile is_space s)))"

text \<open>
  \<^verbatim>\<open>s.split()\<close>: the maximal runs of characters that are not whitespace, in order; \<open>cur\<close> is
  the run being read.
\<close>

fun split_words :: "string \<Rightarrow> string \<Rightarrow> string list" where
  "split_words cur [] = (if cur = [] then [] else [cur])"
| "split_words cur (c # cs) =
     (if is_space c
      then (if cur = [] then split_words [] cs else cur # split_words [] cs)
      else split_words (cur @ [c]) cs)"

definition py_split :: "string \<Rightarrow> string list" where
  "py_split s = split_words [] s"

text \<open>
  \<^verbatim>\<open>xs[i:j]\<close>: a negative bound counts from the end, and both bounds are clamped to the list.
\<close>

definition slice_bound :: "int \<Rightarrow> nat \<Rightarrow> nat" where
  "slice_bound k n = (if k < 0 then nat (max 0 (k + int n)) else min (nat k) n)"

definition py_slice :: "'a list \<Rightarrow> int \<Rightarrow> int \<Rightarrow> 'a list" where
  "py_slice xs i j =
     (let a = slice_bound i (length xs); b = slice_bound j (length xs)
      in take (b - a) (drop a xs))"

function range_from :: "nat \<Rightarrow> nat \<Rightarrow> nat \<Rightarrow> nat list" where
  "range_from i n step = (if step = 0 \<or> n \<le> i then [] else i # range_from (i + step) n step)"
  by pat_completeness auto
termination
  by (relation "measure (\<lambda>(i, n, step). n - i)") auto

text \<open>
  \<^verbatim>\<open>range(0, n, step)\<close> for a length \<open>n\<close>: a zero step raises \<^verbatim>\<open>ValueError\<close>, a negative step
  gives the empty range.
\<close>

definition py_range0 :: "nat \<Rightarrow> int \<Rightarrow> py_exception + nat list" where
  "py_range0 n step =
     (if step = 0 then Inl (ValueError ''range() arg 3 must not be zero'')
      else if step < 0 then Inr []
      else Inr (range_from 0 n (nat step)))"

section \<open>The text chunker (\<^verbatim>\<open>TextChunker\<close>)\<close>

record chunker =
  chunk_size :: int
  overlap :: int

text \<open>The constructor stores its two arguments; it has no other statement.\<close>

definition text_chunker_init :: "int \<Rightarrow> int \<Rightarrow> py_exception + chunker" where
  "text_chunker_init csize ovl = Inr \<lparr>chunk_size = csize, overlap = ovl\<rparr>"

text \<open>A chunk is the dictionary with the keys \<^verbatim>\<open>text\<close> and \<^verbatim>\<open>metadata\<close>.\<close>

record chunk =
  ctext :: string
  cmetadata :: pydict

text \<open>The body of the loop of \<^verbatim>\<open>chunk_text\<close> for the index \<open>i\<close>.\<close>

definition chunk_step :: "chunker \<Rightarrow> string list \<Rightarrow> pydict \<Rightarrow> chunk list \<Rightarrow> nat \<Rightarrow> chunk list" where
  "chunk_step ck words metadata chunks i =
     (let chunk_words = py_slice words (int i) (int i + chunk_size ck);
          chunk_text = py_join '' '' chunk_words
      in if py_strip chunk_text \<noteq> []
         then chunks @
           [\<lparr>ctext = chunk_text,
             cmetadata = dict_update metadata
               [(''chunk_index'', VInt (int (length chunks))),
                (''chunk_size'', VInt (int (length chunk_words))),
                (''start_word'', VInt (int i)),
                (''end_word'', VInt (min (int i + chunk_size ck) (int (length words))))]\<rparr>]
         else chunks)"

definition chunk_text :: "chunker \<Rightarrow> string \<Rightarrow> pydict \<Rightarrow> py_exception + chunk list" where
  "chunk_text ck text metadata =
     (let words = py_split text in
      case py_range0 (length words) (chunk_size ck - overlap ck) of
        Inl e \<Rightarrow> Inl e
      | Inr indices \<Rightarrow> Inr (foldl (chunk_step ck words metadata) [] indices))"

text \<open>
  The chunk that the loop appends for the window starting at word \<open>i\<close> when \<open>idx\<close> chunks
  have been appended before and the window is not blank.
\<close>

definition window_chunk :: "chunker \<Rightarrow> string list \<Rightarrow> pydict \<Rightarrow> nat \<Rightarrow> nat \<Rightarrow> chunk" where
  "window_chunk ck words metadata idx i =
     \<lparr>ctext = py_join '' '' (take (nat (chunk_size ck)) (drop i words)),
      cmetadata = dict_update metadata
        [(''chunk_index'', VInt (int idx)),
         (''chunk_size'', VInt (int (length (take (nat (chunk_size ck)) (drop i words))))),
         (''start_word'', VInt (int i)),
         (''end_word'', VInt (min (int i + chunk_size ck) (int (length words))))]\<rparr>"

text \<open>Reading a chunk's word range back from its metadata.\<close>

definition start_word :: "chunk \<Rightarrow> pyval option" where
  "start_word c = dict_get (cmetadata c) ''start_word''"

definition end_word :: "chunk \<Rightarrow> pyval option" where
  "end_word c = dict_get (cmetadata c) ''end_word''"

definition covers :: "chunk \<Rightarrow> nat \<Rightarrow> bool" where
  "covers c w =
     (case (start_word c, end_word c) of
        (Some (VInt a), Some (VInt b)) \<Rightarrow> a \<le> int w \<and> int w < b
      | _ \<Rightarrow> False)"

definition num_chunks :: "py_exception + chunk list \<Rightarrow> nat option" where
  "num_chunks r = (case r of Inl e \<Rightarrow> None | Inr chunks \<Rightarrow> Some (length chunks))"

text \<open>
  The number of chunks as the specification gives it: the ceiling of
  \<open>(N - O) / (S - O)\<close>, and at least 1.
\<close>

definition spec_chunk_count :: "int \<Rightarrow> int \<Rightarrow> int \<Rightarrow> int" where
  "spec_chunk_count N S ovl = max 1 \<lceil>real_of_int (N - ovl) / real_of_int (S - ovl)\<rceil>"

section \<open>The knowledge store (\<^verbatim>\<open>RAGSystem\<close>)\<close>

text \<open>
  A stored record of the vector collection: its id, embedding, document text and metadata.
\<close>

type_synonym embedding = "real list"

record stored =
  sid :: string
  sembedding :: embedding
  sdocument :: string
  smetadata :: pydict

datatype extractor = PdfText | DocxText | HtmlText | MarkdownText | PlainText

text \<open>What \<^verbatim>\<open>Path(file_path)\<close> and its \<^verbatim>\<open>stat()\<close> tell about an existing file.\<close>

record file_entry =
  f_path :: string
  f_name :: string
  f_size :: int
  f_modified :: string
  f_suffix :: string

text \<open>
  The collaborators of the store: the hash of the standard library, the file system with the
  five \<^verbatim>\<open>extract_text_from_*\<close> readers (each returns the empty string after an error it
  caught), the embedding model, the collection's \<^verbatim>\<open>get\<close> (the ids it finds), \<^verbatim>\<open>add\<close> and
  \<^verbatim>\<open>query\<close>, and the clock. The embedding model and every operation of the collection may
  raise.
\<close>

record rag_env =
  md5_hex :: "string \<Rightarrow> string"
  stat_file :: "string \<Rightarrow> file_entry option"
  extract_text :: "extractor \<Rightarrow> string \<Rightarrow> string"
  embed :: "string list \<Rightarrow> py_exception + embedding list"
  collection_get :: "stored list \<Rightarrow> string list \<Rightarrow> py_exception + string list"
  collection_add :: "stored list \<Rightarrow> stored list \<Rightarrow> py_exception + stored list"
  collection_query ::
    "stored list \<Rightarrow> embedding \<Rightarrow> int \<Rightarrow> pydict option \<Rightarrow> py_exception + (stored \<times> real) list"
  now_isoformat :: string

definition select_extractor :: "string \<Rightarrow> extractor option" where
  "select_extractor ext =
     (if ext = ''.pdf'' then Some PdfText
      else if ext = ''.docx'' then Some DocxText
      else if ext \<in> set [''.html'', ''.htm''] then Some HtmlText
      else if ext \<in> set [''.md'', ''.markdown''] then Some MarkdownText
      else if ext \<in> set [''.txt'', ''.py'', ''.js'', ''.html'', ''.css'', ''.json'', ''.yaml'', ''.yml'']
        then Some PlainText
      else None)"

definition process_file :: "rag_env \<Rightarrow> string \<Rightarrow> pydict" where
  "process_file env file_path =
     (case stat_file env file_path of
        None \<Rightarrow> [(''error'', VStr ''File not found'')]
      | Some f \<Rightarrow>
          (let file_info =
                 [(''path'', VStr (f_path f)),
                  (''name'', VStr (f_name f)),
                  (''size'', VInt (f_size f)),
                  (''modified'', VStr (f_modified f)),
                  (''extension'', VStr (py_lower (f_suffix f)))]
           in case select_extractor (py_lower (f_suffix f)) of
                None \<Rightarrow> [(''error'', VStr (''Unsupported file type: '' @ f_suffix f))]
              | Some kind \<Rightarrow>
                  (let text = extract_text env kind (f_path f)
                   in if py_strip text = [] then [(''error'', VStr ''No text content found'')]
                      else dict_update file_info
                             [(''text'', VStr text),
                              (''word_count'', VInt (int (length (py_split text)))),
                              (''char_count'', VInt (int (length text)))])))"

text \<open>The decimal numeral of a natural number, for \<^verbatim>\<open>f"{i}"\<close>.\<close>

function str_of_nat :: "nat \<Rightarrow> string" where
  "str_of_nat n =
     (if n < 10 then [''0123456789'' ! n]
      else str_of_nat (n div 10) @ [''0123456789'' ! (n mod 10)])"
  by pat_completeness auto
termination
  by (relation "measure id") auto

definition chunk_ids :: "string \<Rightarrow> nat \<Rightarrow> string list" where
  "chunk_ids doc_id n = map (\<lambda>i. doc_id @ ''_chunk_'' @ str_of_nat i) [0..<n]"

text \<open>
  What \<^verbatim>\<open>collection.get(ids=...)["ids"]\<close> is on a collection that answers: the ids among the
  requested ones that are stored.
\<close>

definition collection_get_ids :: "stored list \<Rightarrow> string list \<Rightarrow> string list" where
  "collection_get_ids entries ids = map sid (filter (\<lambda>r. sid r \<in> set ids) entries)"

fun make_records :: "string list \<Rightarrow> embedding list \<Rightarrow> string list \<Rightarrow> pydict list \<Rightarrow> stored list" where
  "make_records (i # ids) (e # embs) (d # docs) (m # metas) =
     \<lparr>sid = i, sembedding = e, sdocument = d, smetadata = m\<rparr> # make_records ids embs docs metas"
| "make_records ids embs docs metas = []"

text \<open>
  The call \<^verbatim>\<open>self.collection.add(ids=..., embeddings=..., documents=..., metadatas=...)\<close>; the
  collection refuses lists of different lengths.
\<close>

definition add_to_collection ::
    "rag_env \<Rightarrow> stored list \<Rightarrow> string list \<Rightarrow> embedding list \<Rightarrow> string list \<Rightarrow> pydict list
     \<Rightarrow> py_exception + stored list" where
  "add_to_collection env entries ids embs docs metas =
     (if length embs \<noteq> length ids \<or> length docs \<noteq> length ids \<or> length metas \<noteq> length ids
      then Inl (ValueError ''Unequal lengths for fields'')
      else collection_add env entries (make_records ids embs docs metas))"

record rag =
  chunker :: chunker
  collection :: "stored list"

text \<open>The constructor builds the default chunker and opens the persisted collection.\<close>

definition rag_init :: "stored list \<Rightarrow> rag" where
  "rag_init persisted = \<lparr>chunker = \<lparr>chunk_size = 1000, overlap = 200\<rparr>, collection = persisted\<rparr>"

definition failure :: "string \<Rightarrow> pydict" where
  "failure msg = [(''success'', VBool False), (''error'', VStr msg)]"

text \<open>
  The shared tail of \<^verbatim>\<open>add_document\<close> and \<^verbatim>\<open>add_text\<close>: ids, embeddings and the insertion,
  for the chunks of the document or text with the id \<open>doc_id\<close>.
\<close>

definition store_chunks :: "rag_env \<Rightarrow> rag \<Rightarrow> string \<Rightarrow> chunk list \<Rightarrow> py_exception + rag" where
  "store_chunks env r doc_id chunks =
     (let ids = chunk_ids doc_id (length chunks);
          chunk_texts = map ctext chunks;
          chunk_metadatas = map cmetadata chunks
      in case embed env chunk_texts of
           Inl e \<Rightarrow> Inl e
         | Inr embeddings \<Rightarrow>
             (case add_to_collection env (collection r) ids embeddings chunk_texts chunk_metadatas of
                Inl e \<Rightarrow> Inl e
              | Inr entries \<Rightarrow> Inr (r\<lparr>collection := entries\<rparr>)))"

text \<open>
  The try block of \<^verbatim>\<open>add_document\<close>; \<open>Inl\<close> is an exception raised inside it. A collection
  operation that raises is taken to leave the collection as it was.
\<close>

definition add_document_try :: "rag_env \<Rightarrow> rag \<Rightarrow> string \<Rightarrow> py_exception + (pydict \<times> rag)" where
  "add_document_try env r file_path =
     (let doc_info = process_file env file_path in
      case dict_get doc_info ''error'' of
        Some err \<Rightarrow> Inr ([(''success'', VBool False), (''error'', err)], r)
      | None \<Rightarrow>
          (let doc_id = md5_hex env file_path in
           case collection_get env (collection r) [doc_id] of
             Inl e \<Rightarrow> Inl e
           | Inr existing \<Rightarrow>
               if existing \<noteq> []
               then Inr (failure ''Document already exists in knowledge base'', r)
               else (case dict_get doc_info ''text'' of
                       Some (VStr text) \<Rightarrow>
                         (case chunk_text (chunker r) text doc_info of
                            Inl e \<Rightarrow> Inl e
                          | Inr chunks \<Rightarrow>
                              (case store_chunks env r doc_id chunks of
                                 Inl e \<Rightarrow> Inl e
                               | Inr r' \<Rightarrow>
                                   Inr ([(''success'', VBool True),
                                         (''document_id'', VStr doc_id),
                                         (''chunks_added'', VInt (int (length chunks))),
                                         (''metadata'', VDict doc_info)], r')))
                     | _ \<Rightarrow> Inl (OtherException ''text''))))"

definition add_document :: "rag_env \<Rightarrow> rag \<Rightarrow> string \<Rightarrow> pydict \<times> rag" where
  "add_document env r file_path =
     (case add_document_try env r file_path of
        Inr result \<Rightarrow> result
      | Inl e \<Rightarrow> (failure (exc_str e), r))"

text \<open>
  Dictionaries passed as arguments are references: a heap maps addresses to dictionaries,
  and \<^verbatim>\<open>add_text\<close> receives the address of the caller's metadata, or \<open>None\<close>.
\<close>

type_synonym heap = "nat \<Rightarrow> pydict option"

definition manual_input_stamp :: "rag_env \<Rightarrow> pydict" where
  "manual_input_stamp env =
     [(''source'', VStr ''manual_input''),
      (''added_at'', VStr (now_isoformat env)),
      (''type'', VStr ''text'')]"

text \<open>
  The statements of \<^verbatim>\<open>add_text\<close> before the hash: the default dictionary when the argument is
  \<open>None\<close> (a new object, unknown to the caller), then \<^verbatim>\<open>metadata.update(...)\<close> on the object
  itself. It returns the updated dictionary and the heap.
\<close>

definition stamp_metadata :: "rag_env \<Rightarrow> heap \<Rightarrow> nat option \<Rightarrow> pydict \<times> heap" where
  "stamp_metadata env h metadata_ref =
     (case metadata_ref of
        None \<Rightarrow> (dict_update [] (manual_input_stamp env), h)
      | Some a \<Rightarrow>
          (let metadata = dict_update (case h a of None \<Rightarrow> [] | Some d \<Rightarrow> d) (manual_input_stamp env)
           in (metadata, h(a \<mapsto> metadata))))"

definition add_text_try :: "rag_env \<Rightarrow> rag \<Rightarrow> string \<Rightarrow> pydict \<Rightarrow> py_exception + (pydict \<times> rag)" where
  "add_text_try env r text metadata =
     (let text_id = md5_hex env text in
      case chunk_text (chunker r) text metadata of
        Inl e \<Rightarrow> Inl e
      | Inr chunks \<Rightarrow>
          (case store_chunks env r text_id chunks of
             Inl e \<Rightarrow> Inl e
           | Inr r' \<Rightarrow>
               Inr ([(''success'', VBool True),
                     (''text_id'', VStr text_id),
                     (''chunks_added'', VInt (int (length chunks)))], r')))"

definition add_text :: "rag_env \<Rightarrow> rag \<Rightarrow> heap \<Rightarrow> string \<Rightarrow> nat option \<Rightarrow> pydict \<times> rag \<times> heap" where
  "add_text env r h text metadata_ref =
     (let (metadata, h') = stamp_metadata env h metadata_ref in
      case add_text_try env r text metadata of
        Inr (result, r') \<Rightarrow> (result, r', h')
      | Inl e \<Rightarrow> (failure (exc_str e), r, h'))"

record search_result =
  result_id :: string
  result_text :: string
  result_metadata :: pydict
  result_distance :: real

definition search :: "rag_env \<Rightarrow> rag \<Rightarrow> string \<Rightarrow> int \<Rightarrow> pydict option \<Rightarrow> search_result list" where
  "search env r query n_results filter_metadata =
     (case embed env [query] of
        Inl e \<Rightarrow> []
      | Inr [] \<Rightarrow> []
      | Inr (query_embedding # others) \<Rightarrow>
          (case collection_query env (collection r) query_embedding n_results filter_metadata of
             Inl e \<Rightarrow> []
           | Inr results \<Rightarrow>
               map (\<lambda>(s, distance).
                      \<lparr>result_id = sid s, result_text = sdocument s,
                       result_metadata = smetadata s, result_distance = distance\<rparr>) results))"

text \<open>
  A collection as a list of records with distinct ids, whose \<^verbatim>\<open>get\<close> is \<open>collection_get_ids\<close>.
  What \<^verbatim>\<open>add\<close> does with a record whose
  id is already stored depends on the version of the vector store: it skips the record, or
  it raises.
\<close>

datatype duplicate_policy = IgnoreExisting | RaiseOnExisting

definition list_collection_add :: "duplicate_policy \<Rightarrow> stored list \<Rightarrow> stored list \<Rightarrow> py_exception + stored list" where
  "list_collection_add policy entries new =
     (let fresh = filter (\<lambda>r. sid r \<notin> set (map sid entries)) new
      in if policy = RaiseOnExisting \<and> length fresh \<noteq> length new
         then Inl (OtherException ''ID already exists'')
         else Inr (entries @ fresh))"

section \<open>The chat session and its transcript (\<^verbatim>\<open>ChatSession\<close>)\<close>

record message =
  role :: string
  content :: string

definition add_user :: "message list \<Rightarrow> string \<Rightarrow> message list" where
  "add_user messages c = messages @ [\<lparr>role = ''user'', content = c\<rparr>]"

definition add_assistant :: "message list \<Rightarrow> string \<Rightarrow> message list" where
  "add_assistant messages c = messages @ [\<lparr>role = ''assistant'', content = c\<rparr>]"

text \<open>
  \<^verbatim>\<open>json.dumps(s, ensure_ascii=False)\<close> on a string: the quote and the backslash are escaped,
  the control characters below 32 are written as \<^verbatim>\<open>\n\<close>, \<^verbatim>\<open>\r\<close>, \<^verbatim>\<open>\t\<close>, \<^verbatim>\<open>\b\<close>, \<^verbatim>\<open>\f\<close> or as
  \<^verbatim>\<open>\u00XX\<close>, and every other character is written as it is.
\<close>

definition dquote :: char where
  "dquote = CHR 0x22"

definition backslash :: char where
  "backslash = CHR 0x5C"

definition hex_digit :: "nat \<Rightarrow> char" where
  "hex_digit n = ''0123456789abcdef'' ! n"

definition escape_char :: "char \<Rightarrow> string" where
  "escape_char c =
     (if c = dquote then [backslash, dquote]
      else if c = backslash then [backslash, backslash]
      else if c = CHR 0x0A then [backslash, CHR ''n'']
      else if c = CHR 0x0D then [backslash, CHR ''r'']
      else if c = CHR 0x09 then [backslash, CHR ''t'']
      else if c = CHR 0x08 then [backslash, CHR ''b'']
      else if c = CHR 0x0C then [backslash, CHR ''f'']
      else if (of_char c :: nat) < 32
        then [backslash, CHR ''u'', CHR ''0'', CHR ''0'',
              hex_digit ((of_char c :: nat) div 16), hex_digit ((of_char c :: nat) mod 16)]
      else [c])"

definition json_dumps_str :: "string \<Rightarrow> string" where
  "json_dumps_str s = dquote # concat (map escape_char s) @ [dquote]"

text \<open>The escaped characters of a string, between the quotes that \<open>json_dumps_str\<close> writes.\<close>

definition escaped :: "string \<Rightarrow> string" where
  "escaped s = concat (map escape_char s)"

text \<open>
  \<^verbatim>\<open>json.dumps(m, ensure_ascii=False)\<close> on a message, a dictionary with the keys \<^verbatim>\<open>role\<close> and
  \<^verbatim>\<open>content\<close> in this order.
\<close>

definition json_dumps_message :: "message \<Rightarrow> string" where
  "json_dumps_message m =
     ''{'' @ json_dumps_str ''role'' @ '': '' @ json_dumps_str (role m) @ '', ''
       @ json_dumps_str ''content'' @ '': '' @ json_dumps_str (content m) @ ''}''"

definition transcript_as_jsonl :: "message list \<Rightarrow> string" where
  "transcript_as_jsonl messages = py_join newline (map json_dumps_message messages) @ newline"

section \<open>Loading a transcript (\<^verbatim>\<open>DesktopApp.load_conversation\<close>)\<close>

text \<open>
  Reading a file in text mode turns \<^verbatim>\<open>\r\n\<close> and \<^verbatim>\<open>\r\<close> into \<^verbatim>\<open>\n\<close>; \<^verbatim>\<open>readlines\<close> cuts after
  each \<^verbatim>\<open>\n\<close> and keeps it.
\<close>

fun universal_newlines :: "string \<Rightarrow> string" where
  "universal_newlines [] = []"
| "universal_newlines [c] = [if c = CHR 0x0D then CHR 0x0A else c]"
| "universal_newlines (c # d # ds) =
     (if c = CHR 0x0D \<and> d = CHR 0x0A then CHR 0x0A # universal_newlines ds
      else if c = CHR 0x0D then CHR 0x0A # universal_newlines (d # ds)
      else c # universal_newlines (d # ds))"

fun read_lines :: "string \<Rightarrow> string \<Rightarrow> string list" where
  "read_lines cur [] = (if cur = [] then [] else [cur])"
| "read_lines cur (c # cs) =
     (if c = CHR 0x0A then (cur @ [c]) # read_lines [] cs else read_lines (cur @ [c]) cs)"

definition py_readlines :: "string \<Rightarrow> string list" where
  "py_readlines s = read_lines [] s"

text \<open>
  \<^verbatim>\<open>json.loads\<close>, for the documents that matter here: an object whose members are strings.
  Whitespace between the tokens is skipped, a string ends at the first quote that is not
  escaped, a control character inside a string is an error, and the escapes are those of
  JSON. Two things are left out and are errors of this model: a member that is not a
  string, and a \<^verbatim>\<open>\u\<close> escape of a character beyond ASCII (with \<^verbatim>\<open>ensure_ascii=False\<close> the writer
  produces neither).
\<close>

definition json_space :: "char \<Rightarrow> bool" where
  "json_space c = (c = CHR '' '' \<or> c = CHR 0x09 \<or> c = CHR 0x0A \<or> c = CHR 0x0D)"

definition skip_ws :: "string \<Rightarrow> string" where
  "skip_ws s = dropWhile json_space s"

definition hex_val :: "char \<Rightarrow> nat option" where
  "hex_val c =
     map_of (zip ''0123456789abcdefABCDEF''
        [0, 1, 2, 3, 4, 5, 6, 7, 8, 9, 10, 11, 12, 13, 14, 15, 10, 11, 12, 13, 14, 15]) c"

definition unescape :: "char \<Rightarrow> char option" where
  "unescape e =
     map_of [(dquote, dquote), (backslash, backslash), (CHR ''/'', CHR ''/''),
             (CHR ''b'', CHR 0x08), (CHR ''f'', CHR 0x0C), (CHR ''n'', CHR 0x0A),
             (CHR ''r'', CHR 0x0D), (CHR ''t'', CHR 0x09)] e"

definition hex4 :: "char \<Rightarrow> char \<Rightarrow> char \<Rightarrow> char \<Rightarrow> nat option" where
  "hex4 a b c d =
     (case (hex_val a, hex_val b, hex_val c, hex_val d) of
        (Some w, Some x, Some y, Some z) \<Rightarrow> Some (((w * 16 + x) * 16 + y) * 16 + z)
      | _ \<Rightarrow> None)"

definition cons_result :: "char \<Rightarrow> (string \<times> string) option \<Rightarrow> (string \<times> string) option" where
  "cons_result c r = (case r of None \<Rightarrow> None | Some (s, rest) \<Rightarrow> Some (c # s, rest))"

text \<open>
  The text after an opening quote: the decoded string and what follows its closing quote.
\<close>

fun scan_string :: "string \<Rightarrow> (string \<times> string) option" where
  "scan_string [] = None"
| "scan_string (c # cs) =
     (if c = dquote then Some ([], cs)
      else if c = backslash then
        (case cs of
           [] \<Rightarrow> None
         | e # es \<Rightarrow>
             (if e = CHR ''u'' then
                (case es of
                   h1 # h2 # h3 # h4 # rest \<Rightarrow>
                     (case hex4 h1 h2 h3 h4 of
                        None \<Rightarrow> None
                      | Some n \<Rightarrow> if n < 128 then cons_result (char_of n) (scan_string rest) else None)
                 | _ \<Rightarrow> None)
              else (case unescape e of
                      None \<Rightarrow> None
                    | Some ch \<Rightarrow> cons_result ch (scan_string es))))
      else if (of_char c :: nat) < 32 then None
      else cons_result c (scan_string cs))"

text \<open>
  The members of an object after its opening brace; each round reads one member, and the
  fuel, the length of the document, is more than the number of its members.
\<close>

fun parse_members :: "nat \<Rightarrow> string \<Rightarrow> (string \<times> string) list \<Rightarrow> py_exception + (string \<times> string) list" where
  "parse_members 0 s acc = Inl (ValueError ''Expecting value'')"
| "parse_members (Suc fuel) s acc =
     (case skip_ws s of
        [] \<Rightarrow> Inl (ValueError ''Expecting property name enclosed in double quotes'')
      | q # r1 \<Rightarrow>
          if q \<noteq> dquote then Inl (ValueError ''Expecting property name enclosed in double quotes'')
          else (case scan_string r1 of
                  None \<Rightarrow> Inl (ValueError ''Invalid string'')
                | Some (key, r2) \<Rightarrow>
                    (case skip_ws r2 of
                       [] \<Rightarrow> Inl (ValueError ''Expecting : delimiter'')
                     | colon # r3 \<Rightarrow>
                         if colon \<noteq> CHR '':'' then Inl (ValueError ''Expecting : delimiter'')
                         else (case skip_ws r3 of
                                 [] \<Rightarrow> Inl (ValueError ''Expecting value'')
                               | q2 # r4 \<Rightarrow>
                                   if q2 \<noteq> dquote then Inl (ValueError ''Expecting a string value'')
                                   else (case scan_string r4 of
                                           None \<Rightarrow> Inl (ValueError ''Invalid string'')
                                         | Some (v, r5) \<Rightarrow>
                                             (case skip_ws r5 of
                                                [] \<Rightarrow> Inl (ValueError ''Expecting , delimiter'')
                                              | d # r6 \<Rightarrow>
                                                  if d = CHR '','' then parse_members fuel r6 (acc @ [(key, v)])
                                                  else if d = CHR ''}'' then
                                                    (if skip_ws r6 = [] then Inr (acc @ [(key, v)])
                                                     else Inl (ValueError ''Extra data''))
                                                  else Inl (ValueError ''Expecting , delimiter'')))))))"

definition json_loads_object :: "string \<Rightarrow> py_exception + (string \<times> string) list" where
  "json_loads_object s =
     (case skip_ws s of
        [] \<Rightarrow> Inl (ValueError ''Expecting value'')
      | c # r \<Rightarrow>
          if c \<noteq> CHR ''{'' then Inl (ValueError ''Expecting an object'')
          else (case skip_ws r of
                  [] \<Rightarrow> Inl (ValueError ''Expecting property name enclosed in double quotes'')
                | e # r' \<Rightarrow>
                    if e = CHR ''}'' then
                      (if skip_ws r' = [] then Inr [] else Inl (ValueError ''Extra data''))
                    else parse_members (length s) r []))"

text \<open>\<^verbatim>\<open>message.get(key)\<close> on the parsed object: the last member with the key counts.\<close>

definition object_get :: "(string \<times> string) list \<Rightarrow> string \<Rightarrow> string option" where
  "object_get obj k = map_of (rev obj) k"

text \<open>
  The loop of \<^verbatim>\<open>load_conversation\<close> over the lines of the file: blank lines are skipped, a line
  that does not parse raises (and the load fails), and a message is shown when its role is
  \<^verbatim>\<open>user\<close> or \<^verbatim>\<open>assistant\<close>. The result is the sequence of messages shown.
\<close>

fun load_lines :: "string list \<Rightarrow> py_exception + message list" where
  "load_lines [] = Inr []"
| "load_lines (line # rest) =
     (if py_strip line = [] then load_lines rest
      else (case json_loads_object (py_strip line) of
              Inl e \<Rightarrow> Inl e
            | Inr obj \<Rightarrow>
                (case load_lines rest of
                   Inl e \<Rightarrow> Inl e
                 | Inr shown \<Rightarrow>
                     (let c = (case object_get obj ''content'' of None \<Rightarrow> [] | Some v \<Rightarrow> v)
                      in if object_get obj ''role'' = Some ''user''
                           then Inr (\<lparr>role = ''user'', content = c\<rparr> # shown)
                         else if object_get obj ''role'' = Some ''assistant''
                           then Inr (\<lparr>role = ''assistant'', content = c\<rparr> # shown)
                         else Inr shown))))"

definition load_conversation :: "string \<Rightarrow> py_exception + message list" where
  "load_conversation file_text = load_lines (py_readlines (universal_newlines file_text))"

definition from_chat :: "message \<Rightarrow> bool" where
  "from_chat m = (role m = ''user'' \<or> role m = ''assistant'')"

section \<open>Concrete collaborators for the examples\<close>

text \<open>A shell in which four commands behave in the four possible ways.\<close>

definition demo_run :: subprocess_run where
  "demo_run command shell timeout =
     (if command = ''echo hello'' then Inr \<lparr>returncode = 0, stdout = ''hello'', stderr = []\<rparr>
      else if command = ''exit 3'' then Inr \<lparr>returncode = 3, stdout = [], stderr = []\<rparr>
      else if command = ''sleep 60'' then Inl (TimeoutExpired ''Command timed out after 30 seconds'')
      else Inl (OtherException ''No such file or directory''))"



text \<open>
  A session whose knowledge base is enabled and empty (every query retrieves the empty
  context), without task automation, and a model that answers with one fixed reply.
\<close>

definition empty_kb_session :: enhanced_chat_session where
  "empty_kb_session =
     \<lparr>rag_system = Some (\<lambda>query max_chunks. Inr []), task_solver = None, current_topic = None\<rparr>"

definition canned_llm :: stream_chat where
  "canned_llm prompt = Inr [''My knowledge base '', ''has nothing on this.'']"

text \<open>A text of ten words.\<close>

definition ten_words :: string where
  "ten_words = ''a b c d e f g h i j''"

text \<open>
  A store over one text file, \<^verbatim>\<open>notes.txt\<close> with the content "hello world", an embedding
  model that answers with zero vectors, and a list collection.
\<close>

definition notes_env :: "duplicate_policy \<Rightarrow> rag_env" where
  "notes_env policy =
     \<lparr>md5_hex = (\<lambda>s. if s = ''notes.txt'' then ''a5d5286f1e67b6cd6876223e53f999c4''
                      else ''5eb63bbbe01eeed093cb22bb8f5acdc3''),
      stat_file = (\<lambda>p. if p = ''notes.txt''
                        then Some \<lparr>f_path = ''notes.txt'', f_name = ''notes.txt'', f_size = 11,
                                   f_modified = ''2024-01-01T00:00:00'', f_suffix = ''.txt''\<rparr>
                        else None),
      extract_text = (\<lambda>kind p. ''hello world''),
      embed = (\<lambda>texts. Inr (map (\<lambda>t. [0, 0, 0]) texts)),
      collection_get = (\<lambda>entries ids. Inr (collection_get_ids entries ids)),
      collection_add = list_collection_add policy,
      collection_query = (\<lambda>entries e n flt. Inr (map (\<lambda>s. (s, 0)) (take (nat n) entries))),
      now_isoformat = ''2024-01-01T00:00:00''\<rparr>"

text \<open>The same store with an embedding model that cannot be reached.\<close>

definition offline_env :: rag_env where
  "offline_env = (notes_env IgnoreExisting)\<lparr>embed := (\<lambda>texts. Inl (OtherException ''model not loaded''))\<rparr>"

definition one_record :: stored where
  "one_record = \<lparr>sid = ''5eb63bbbe01eeed093cb22bb8f5acdc3_chunk_0'', sembedding = [0, 0, 0],
                  sdocument = ''hello world'', smetadata = [(''source'', VStr ''manual_input'')]\<rparr>"

text \<open>Adding \<^verbatim>\<open>notes.txt\<close> to the empty store, and adding it again to the store that results.\<close>

definition first_add :: "duplicate_policy \<Rightarrow> pydict \<times> rag" where
  "first_add policy = add_document (notes_env policy) (rag_init []) ''notes.txt''"

definition second_add :: "duplicate_policy \<Rightarrow> pydict \<times> rag" where
  "second_add policy = add_document (notes_env policy) (snd (first_add policy)) ''notes.txt''"

text \<open>The same store with a collection whose every operation fails.\<close>

definition broken_store_env :: rag_env where
  "broken_store_env = (notes_env IgnoreExisting)
     \<lparr>collection_get := (\<lambda>entries ids. Inl (OtherException ''disk I/O error'')),
      collection_add := (\<lambda>entries new. Inl (OtherException ''disk I/O error'')),
      collection_query := (\<lambda>entries e n flt. Inl (OtherException ''disk I/O error''))\<rparr>"

text \<open>The same store with a collection that can be read and refuses every insertion.\<close>

definition read_only_store_env :: rag_env where
  "read_only_store_env = (notes_env IgnoreExisting)
     \<lparr>collection_add := (\<lambda>entries new. Inl (OtherException ''database is read-only''))\<rparr>"

text \<open>A heap with the caller's dictionary of \<^verbatim>\<open>test_rag.py\<close> at address 0.\<close>

definition sample_heap :: heap where
  "sample_heap = Map.empty(0 \<mapsto> [(''source'', VStr ''test''), (''type'', VStr ''sample'')])"

text \<open>A conversation of two messages with a quote, a line break and a bell character.\<close>

definition sample_conversation :: "message list" where
  "sample_conversation =
     add_assistant (add_user [] (''say '' @ [CHR 0x22] @ ''hi'' @ [CHR 0x22, CHR 0x0A] @ ''twice''))
       (''hi'' @ [CHR 0x07, CHR 0x5C] @ ''hi'')"

chapter \<open>Properties\<close>

section \<open>Classifier precedence\<close>

lemma lower_example:
  "py_lower ''add python to path and install numpy'' = ''add python to path and install numpy''"
  by (simp add: py_lower_def lower_char_def)

lemma path_keyword_example:
  "any_keyword_in path_keywords ''add python to path and install numpy''"
  by (simp add: path_keywords_def)

text \<open>
  C3. For every task text the classifier is the first-match scan of the priority table
  path_addition (0.9), python_setup (0.8), package_installation (0.8), system_command (0.7)
  over the lower-cased text, with \<open>unknown\<close> and 0.0 when no keyword set matches; the
  text "add python to path and install numpy" is classified as path_addition with 0.9,
  although it also contains keywords of python_setup and package_installation.
\<close>

theorem analyze_task_priority:
  "analyze_task t ctx = classify_spec t
   \<and> analyze_task ''add python to path and install numpy'' ctx
       = \<lparr>task_type = path_addition, confidence = 9 / 10\<rparr>
   \<and> any_keyword_in python_keywords (py_lower ''add python to path and install numpy'')
   \<and> any_keyword_in install_keywords (py_lower ''add python to path and install numpy'')"
proof -
  have a: "analyze_task t ctx = classify_spec t"
    by (simp add: analyze_task_def classify_spec_def priority_table_def Let_def)
  have b: "analyze_task ''add python to path and install numpy'' ctx
       = \<lparr>task_type = path_addition, confidence = 9 / 10\<rparr>"
    unfolding analyze_task_def Let_def lower_example
    using path_keyword_example by simp
  have c: "any_keyword_in python_keywords ''add python to path and install numpy''"
    by (simp add: python_keywords_def)
  have d: "any_keyword_in install_keywords ''add python to path and install numpy''"
    by (simp add: install_keywords_def)
  from a b c d show ?thesis
    unfolding lower_example by simp
qed

section \<open>Command execution\<close>

text \<open>
  C5. For every command string, whatever \<^verbatim>\<open>subprocess.run\<close> does, \<open>run_command\<close> returns a
  result value and raises nothing. When the subprocess completes, the result has the keys
  success, returncode, stdout and stderr, and success is true exactly when the return code
  is 0; when it times out, the result has success false and timeout true; when it raises
  anything else, the result has success false and an error message.
\<close>

theorem run_command_result:
  "(\<exists>d. run_command run command shell timeout = Inr d)
   \<and> (\<forall>r. run command shell timeout = Inr r \<longrightarrow>
        (\<exists>d. run_command run command shell timeout = Inr d
           \<and> dict_get d ''success'' = Some (VBool (returncode r = 0))
           \<and> dict_get d ''returncode'' = Some (VInt (returncode r))
           \<and> dict_get d ''stdout'' = Some (VStr (stdout r))
           \<and> dict_get d ''stderr'' = Some (VStr (stderr r))))
   \<and> (\<forall>m. run command shell timeout = Inl (TimeoutExpired m) \<longrightarrow>
        (\<exists>d. run_command run command shell timeout = Inr d
           \<and> dict_get d ''success'' = Some (VBool False)
           \<and> dict_get d ''timeout'' = Some (VBool True)))
   \<and> (\<forall>e. run command shell timeout = Inl e \<longrightarrow>
        (\<exists>d. run_command run command shell timeout = Inr d
           \<and> dict_get d ''success'' = Some (VBool False)
           \<and> dict_get d ''error'' \<noteq> None))"
  by (cases "run command shell timeout")
     (auto simp: run_command_def dict_get_def split: py_exception.splits)

theorem run_command_result_witness:
  "(\<exists>d. run_command demo_run ''echo hello'' True 5 = Inr d
        \<and> dict_get d ''success'' = Some (VBool True)
        \<and> dict_get d ''returncode'' = Some (VInt 0)
        \<and> dict_get d ''stdout'' = Some (VStr ''hello''))
   \<and> (\<exists>d. run_command demo_run ''exit 3'' True 5 = Inr d
        \<and> dict_get d ''success'' = Some (VBool False)
        \<and> dict_get d ''returncode'' = Some (VInt 3))
   \<and> (\<exists>d. run_command demo_run ''sleep 60'' True 30 = Inr d
        \<and> dict_get d ''success'' = Some (VBool False)
        \<and> dict_get d ''timeout'' = Some (VBool True))
   \<and> (\<exists>d. run_command demo_run ''nosuchprogram'' True 30 = Inr d
        \<and> dict_get d ''success'' = Some (VBool False))"
proof -
  have a: "demo_run ''echo hello'' True 5 = Inr \<lparr>returncode = 0, stdout = ''hello'', stderr = []\<rparr>"
    by (simp add: demo_run_def)
  have b: "demo_run ''exit 3'' True 5 = Inr \<lparr>returncode = 3, stdout = [], stderr = []\<rparr>"
    by (simp add: demo_run_def)
  have c: "demo_run ''sleep 60'' True 30 = Inl (TimeoutExpired ''Command timed out after 30 seconds'')"
    by (simp add: demo_run_def)
  have d: "demo_run ''nosuchprogram'' True 30 = Inl (OtherException ''No such file or directory'')"
    by (simp add: demo_run_def)
  show ?thesis
    using run_command_result [of demo_run "''echo hello''" True 5]
      run_command_result [of demo_run "''exit 3''" True 5]
      run_command_result [of demo_run "''sleep 60''" True 30]
      run_command_result [of demo_run "''nosuchprogram''" True 30]
    unfolding a b c d by auto
qed

section \<open>The Python set-up resolver\<close>



section \<open>Post-processing on the answer path\<close>

lemma not_task_example: "\<not> is_task_request ''what is rust?''"
  by (simp add: is_task_request_def task_keywords_def py_lower_def lower_char_def)

lemma mentions_example:
  "py_in ''knowledge base'' (py_lower ''My knowledge base has nothing on this.'')"
  by (simp add: py_lower_def lower_char_def)

text \<open>
  On the answer path the message is not a task request, so the task hint is never appended
  there, and the attribution note depends on the knowledge base being enabled and on the
  reply's words, not on the retrieved context.
\<close>

lemma post_process_on_answer_path:
  assumes "\<not> is_task_request user_message"
  shows "post_process_response s response user_message =
     (if knowledge_base_enabled s \<and> py_in ''knowledge base'' (py_lower response)
      then response @ kb_note else response)"
  using assms by (simp add: post_process_response_def)

text \<open>
  C6. The attribution note is meant to be appended when the reply mentions the knowledge base
  and retrieved context was used. With the knowledge base enabled and empty, the question
  "what is rust?" takes the answer path with the empty context, and a reply that mentions
  the knowledge base still gets the note.
\<close>

theorem kb_note_without_context:
  "\<not> is_task_request ''what is rust?''
   \<and> answer_path empty_kb_session canned_llm ''what is rust?''
       = Inr ([], ''My knowledge base has nothing on this.'' @ kb_note)
   \<and> get_enhanced_response empty_kb_session canned_llm ''what is rust?''
       = ''My knowledge base has nothing on this.'' @ kb_note"
proof -
  have a: "answer_path empty_kb_session canned_llm ''what is rust?''
       = Inr ([], ''My knowledge base has nothing on this.'' @ kb_note)"
    using mentions_example not_task_example
    by (simp add: answer_path_def empty_kb_session_def canned_llm_def post_process_response_def
        knowledge_base_enabled_def task_automation_enabled_def)
  show ?thesis
    using not_task_example a by (simp add: get_enhanced_response_def)
qed

section \<open>The text chunker\<close>

subsection \<open>The range, the words and the windows\<close>

lemma range_from_upt:
  "0 < step \<Longrightarrow>
   range_from i n step = map (\<lambda>k. i + k * step) [0..<(n - i + step - 1) div step]"
proof (induction i n step rule: range_from.induct)
  case (1 i n step)
  show ?case
  proof (cases "n \<le> i")
    case True
    with "1.prems" show ?thesis by simp
  next
    case False
    define m where "m = (n - (i + step) + step - 1) div step"
    have cnt: "(n - i + step - 1) div step = Suc m"
    proof (cases "i + step \<le> n")
      case True
      then have "n - i + step - 1 = (n - (i + step) + step - 1) + step"
        using "1.prems" by simp
      then have "(n - i + step - 1) div step = ((n - (i + step) + step - 1) + step) div step"
        by (rule arg_cong)
      also have "\<dots> = Suc m"
        using "1.prems" unfolding m_def by (subst div_add_self2) simp_all
      finally show ?thesis .
    next
      case f: False
      with False "1.prems" have a: "step \<le> n - i + step - 1" "n - i + step - 1 < 2 * step"
        by auto
      then have "(n - i + step - 1) div step = 1"
        by (metis Suc_1 div_nat_eqI mult.commute mult_Suc_right nat_mult_1_right plus_1_eq_Suc add.commute mult_2)
      moreover from f have "m = 0" using "1.prems" by (simp add: m_def)
      ultimately show ?thesis by simp
    qed
    have "range_from i n step = i # range_from (i + step) n step"
      using False "1.prems" by simp
    also have "range_from (i + step) n step = map (\<lambda>k. i + step + k * step) [0..<m]"
      using "1.IH" False "1.prems" by (simp add: m_def)
    also have "i # map (\<lambda>k. i + step + k * step) [0..<m] = map (\<lambda>k. i + k * step) [0..<Suc m]"
      by (simp add: map_upt_Suc add.assoc del: upt_Suc)
    finally show ?thesis by (simp only: cnt)
  qed
qed

lemma split_words_clean:
  "\<forall>c\<in>set cur. \<not> is_space c \<Longrightarrow> w \<in> set (split_words cur s) \<Longrightarrow>
   w \<noteq> [] \<and> (\<forall>c\<in>set w. \<not> is_space c)"
proof (induction s arbitrary: cur)
  case Nil
  then show ?case by (auto split: if_splits)
next
  case (Cons a s)
  show ?case
  proof (cases "is_space a")
    case True
    then have "w = cur \<and> cur \<noteq> [] \<or> w \<in> set (split_words [] s)"
      using Cons.prems(2) by (auto split: if_splits)
    then show ?thesis
    proof
      assume "w = cur \<and> cur \<noteq> []"
      then show ?thesis using Cons.prems(1) by simp
    next
      assume "w \<in> set (split_words [] s)"
      then show ?thesis using Cons.IH [of "[]"] by simp
    qed
  next
    case False
    then have "w \<in> set (split_words (cur @ [a]) s)"
      using Cons.prems(2) by simp
    moreover have "\<forall>c\<in>set (cur @ [a]). \<not> is_space c"
      using Cons.prems(1) False by simp
    ultimately show ?thesis using Cons.IH [of "cur @ [a]"] by blast
  qed
qed

lemma py_split_clean:
  "w \<in> set (py_split s) \<Longrightarrow> w \<noteq> [] \<and> (\<forall>c\<in>set w. \<not> is_space c)"
  unfolding py_split_def using split_words_clean [of "[]" w s] by simp

lemma py_strip_nonempty:
  assumes "c \<in> set s" "\<not> is_space c"
  shows "py_strip s \<noteq> []"
proof -
  have d: "dropWhile is_space s \<noteq> []"
    using assms by (auto simp: dropWhile_eq_Nil_conv)
  then have "\<not> is_space (hd (dropWhile is_space s))"
    by (rule hd_dropWhile)
  moreover have "hd (dropWhile is_space s) \<in> set (rev (dropWhile is_space s))"
    using d by simp
  ultimately have "dropWhile is_space (rev (dropWhile is_space s)) \<noteq> []"
    by (auto simp: dropWhile_eq_Nil_conv)
  then show ?thesis by (simp add: py_strip_def)
qed

lemma set_py_join: "set w \<subseteq> set (py_join sep (w # ws))"
  by (cases ws) auto

lemma joined_words_not_blank:
  assumes "ws \<noteq> []" "\<forall>w\<in>set ws. w \<noteq> [] \<and> (\<forall>c\<in>set w. \<not> is_space c)"
  shows "py_strip (py_join '' '' ws) \<noteq> []"
proof -
  from assms(1) obtain w rest where ws: "ws = w # rest" by (cases ws) auto
  with assms(2) obtain c where c: "c \<in> set w" "\<not> is_space c"
    by (cases w) auto
  then have "c \<in> set (py_join '' '' ws)" using set_py_join [of w "'' ''" rest] ws by auto
  then show ?thesis using c(2) by (rule py_strip_nonempty)
qed

lemma py_slice_window:
  assumes "i < length xs" "0 < S"
  shows "py_slice xs (int i) (int i + S) = take (nat S) (drop i xs)"
proof -
  have a: "slice_bound (int i) (length xs) = i"
    using assms by (simp add: slice_bound_def)
  have b: "slice_bound (int i + S) (length xs) = min (i + nat S) (length xs)"
    using assms by (simp add: slice_bound_def nat_add_distrib)
  show ?thesis
    unfolding py_slice_def Let_def a b using assms by (auto simp: min_def)
qed

lemma chunk_step_append:
  assumes "i < length words" "0 < chunk_size ck"
    and "\<forall>w\<in>set words. w \<noteq> [] \<and> (\<forall>c\<in>set w. \<not> is_space c)"
  shows "chunk_step ck words md chunks i = chunks @ [window_chunk ck words md (length chunks) i]"
proof -
  let ?ws = "take (nat (chunk_size ck)) (drop i words)"
  have sl: "py_slice words (int i) (int i + chunk_size ck) = ?ws"
    using assms(1,2) by (rule py_slice_window)
  have ne: "?ws \<noteq> []" using assms(1,2) by simp
  have "set ?ws \<subseteq> set words"
    by (meson set_take_subset set_drop_subset subset_trans)
  with assms(3) have "\<forall>w\<in>set ?ws. w \<noteq> [] \<and> (\<forall>c\<in>set w. \<not> is_space c)" by blast
  with ne have "py_strip (py_join '' '' ?ws) \<noteq> []" by (rule joined_words_not_blank)
  then show ?thesis
    unfolding chunk_step_def Let_def sl window_chunk_def by simp
qed

lemma foldl_chunk_step:
  assumes "0 < chunk_size ck"
    and "\<forall>w\<in>set words. w \<noteq> [] \<and> (\<forall>c\<in>set w. \<not> is_space c)"
  shows "\<forall>i\<in>set is. i < length words \<Longrightarrow>
     foldl (chunk_step ck words md) acc is =
     acc @ map (\<lambda>j. window_chunk ck words md (length acc + j) (is ! j)) [0..<length is]"
proof (induction "is" arbitrary: acc)
  case Nil
  then show ?case by simp
next
  case (Cons i rest)
  have st: "chunk_step ck words md acc i = acc @ [window_chunk ck words md (length acc) i]"
    using Cons.prems assms by (simp add: chunk_step_append)
  have "foldl (chunk_step ck words md) acc (i # rest) =
      foldl (chunk_step ck words md) (acc @ [window_chunk ck words md (length acc) i]) rest"
    by (simp add: st)
  also have "\<dots> = (acc @ [window_chunk ck words md (length acc) i]) @
      map (\<lambda>j. window_chunk ck words md (length (acc @ [window_chunk ck words md (length acc) i]) + j) (rest ! j))
        [0..<length rest]"
    using Cons.prems by (intro Cons.IH) simp
  also have "\<dots> = acc @ map (\<lambda>j. window_chunk ck words md (length acc + j) ((i # rest) ! j))
        [0..<length (i # rest)]"
    by (simp add: map_upt_Suc del: upt_Suc)
  finally show ?case .
qed

lemma window_starts_in_range:
  assumes "0 < d" "k < (n + d - 1) div d"
  shows "k * d < (n::nat)"
proof -
  have "Suc k * d \<le> (n + d - 1) div d * d"
    using assms(2) by (simp add: Suc_leI mult_le_mono1 del: mult_Suc)
  also have "\<dots> \<le> n + d - 1" by (rule div_times_less_eq_dividend)
  finally show ?thesis using assms(1) by simp
qed

lemma chunk_text_windows:
  assumes "0 < chunk_size ck" "overlap ck < chunk_size ck"
  shows "chunk_text ck text md =
     Inr (map (\<lambda>k. window_chunk ck (py_split text) md k (k * nat (chunk_size ck - overlap ck)))
            [0..<(length (py_split text) + nat (chunk_size ck - overlap ck) - 1)
                   div nat (chunk_size ck - overlap ck)])"
proof -
  let ?words = "py_split text"
  let ?d = "nat (chunk_size ck - overlap ck)"
  let ?cnt = "(length ?words + ?d - 1) div ?d"
  let ?is = "map (\<lambda>k. k * ?d) [0..<?cnt]"
  have d: "0 < ?d" using assms(2) by simp
  have rng: "py_range0 (length ?words) (chunk_size ck - overlap ck) = Inr ?is"
    using assms(2) range_from_upt [OF d, of 0 "length ?words"] by (simp add: py_range0_def)
  have clean: "\<forall>w\<in>set ?words. w \<noteq> [] \<and> (\<forall>c\<in>set w. \<not> is_space c)"
    using py_split_clean by blast
  have inr: "\<forall>i\<in>set ?is. i < length ?words"
    using window_starts_in_range [OF d] by auto
  have "foldl (chunk_step ck ?words md) [] ?is =
      [] @ map (\<lambda>j. window_chunk ck ?words md (length ([]::chunk list) + j) (?is ! j)) [0..<length ?is]"
    using assms(1) clean inr by (rule foldl_chunk_step)
  also have "\<dots> = map (\<lambda>k. window_chunk ck ?words md k (k * ?d)) [0..<?cnt]"
    by simp
  finally show ?thesis
    unfolding chunk_text_def Let_def rng by simp
qed

lemma dict_get_set:
  "dict_get (dict_set k v d) k' = (if k' = k then Some v else dict_get d k')"
  by (induction d) (auto simp: dict_get_def)

lemma start_word_window [simp]:
  "start_word (window_chunk ck words md idx i) = Some (VInt (int i))"
  by (simp add: start_word_def window_chunk_def dict_get_set)

lemma end_word_window [simp]:
  "end_word (window_chunk ck words md idx i) =
     Some (VInt (min (int i + chunk_size ck) (int (length words))))"
  by (simp add: end_word_def window_chunk_def dict_get_set)

lemma ceiling_nat_div:
  assumes "0 < d"
  shows "\<lceil>real n / real d\<rceil> = int ((n + d - 1) div d)"
proof (rule ceiling_unique)
  let ?c = "(n + d - 1) div d"
  have up: "n \<le> ?c * d"
  proof -
    have "n + d - 1 < d + ?c * d" using assms by (rule dividend_less_div_times)
    then show ?thesis using assms by simp
  qed
  have lo: "?c * d < n + d"
  proof -
    have "?c * d \<le> n + d - 1" by (rule div_times_less_eq_dividend)
    moreover have "n + d - 1 < n + d" using assms by simp
    ultimately show ?thesis by (rule le_less_trans)
  qed
  from up have "real n \<le> real (?c * d)" by (simp only: of_nat_le_iff)
  then show "real n / real d \<le> real_of_int (int ?c)"
    using assms by (simp add: field_simps)
  from lo have "real (?c * d) < real (n + d)" by (simp only: of_nat_less_iff)
  then show "real_of_int (int ?c) - 1 < real n / real d"
    using assms by (simp add: field_simps)
qed

lemma ten_words_split:
  "py_split ten_words = [''a'', ''b'', ''c'', ''d'', ''e'', ''f'', ''g'', ''h'', ''i'', ''j'']"
  by (simp add: ten_words_def py_split_def is_space_def)

subsection \<open>Chunk count and coverage\<close>

text \<open>
  C2, as the specification states it, at ten words with chunk size 4 and overlap 2: the loop
  starts a window at the words 0, 2, 4, 6 and 8 and produces 5 chunks (the last one, words 8
  to 10, lies inside the one before), where the specification's formula gives 4.
\<close>

theorem chunk_count_counterexample:
  "length (py_split ten_words) = 10
   \<and> num_chunks (chunk_text \<lparr>chunk_size = 4, overlap = 2\<rparr> ten_words []) = Some 5
   \<and> spec_chunk_count 10 4 2 = 4"
proof -
  have a: "length (py_split ten_words) = 10" by (simp add: ten_words_split)
  have b: "num_chunks (chunk_text \<lparr>chunk_size = 4, overlap = 2\<rparr> ten_words []) = Some 5"
    by (simp add: chunk_text_windows a num_chunks_def)
  have c: "spec_chunk_count 10 4 2 = 4" by (simp add: spec_chunk_count_def)
  from a b c show ?thesis by simp
qed

text \<open>
  C2, amended. For every text of \<open>N > 0\<close> whitespace-delimited words, chunk size \<open>S\<close> and
  overlap \<open>O\<close> with \<open>0 \<le> O < S\<close>, \<open>chunk_text\<close> returns exactly the ceiling of
  \<open>N / (S - O)\<close> chunks (at least 1), and the chunks' word ranges cover \<open>[0, N)\<close> with no
  gaps: every word index lies in some chunk's range, the first range starts at 0, each
  range starts no later than the one before it ends, and the last range ends at \<open>N\<close>.
\<close>

theorem chunk_text_count_and_coverage:
  assumes "0 \<le> overlap ck" "overlap ck < chunk_size ck" "py_split text \<noteq> []"
  shows "\<exists>chunks. chunk_text ck text md = Inr chunks
     \<and> int (length chunks) =
         \<lceil>real (length (py_split text)) / real_of_int (chunk_size ck - overlap ck)\<rceil>
     \<and> 1 \<le> length chunks
     \<and> (\<forall>w < length (py_split text). \<exists>k < length chunks. covers (chunks ! k) w)
     \<and> start_word (chunks ! 0) = Some (VInt 0)
     \<and> (\<forall>k. Suc k < length chunks \<longrightarrow>
          (\<exists>a b. start_word (chunks ! Suc k) = Some (VInt a)
             \<and> end_word (chunks ! k) = Some (VInt b) \<and> a \<le> b))
     \<and> end_word (last chunks) = Some (VInt (int (length (py_split text))))"
proof -
  define words where "words = py_split text"
  define n where "n = length words"
  define d where "d = nat (chunk_size ck - overlap ck)"
  define cnt where "cnt = (n + d - 1) div d"
  define chunks where "chunks = map (\<lambda>k. window_chunk ck words md k (k * d)) [0..<cnt]"
  let ?S = "chunk_size ck"
  have S: "0 < ?S" using assms(1,2) by simp
  have d: "0 < d" using assms(2) by (simp add: d_def)
  have dS: "int d \<le> ?S" using assms(1,2) by (simp add: d_def)
  have n: "0 < n" using assms(3) by (simp add: n_def words_def)
  have ct: "chunk_text ck text md = Inr chunks"
    unfolding chunks_def cnt_def n_def d_def words_def
    using S assms(2) by (rule chunk_text_windows)
  have len: "length chunks = cnt" by (simp add: chunks_def)
  have nth: "chunks ! k = window_chunk ck words md k (k * d)" if "k < cnt" for k
    using that by (simp add: chunks_def del: upt_Suc)
  have wlen: "length words = n" by (simp add: n_def)
  have ceil: "int cnt = \<lceil>real n / real_of_int (?S - overlap ck)\<rceil>"
    using ceiling_nat_div [OF d, of n] assms(2) by (simp add: cnt_def d_def)
  have cnt1: "1 \<le> cnt"
  proof -
    have "d \<le> n + d - 1" using n by linarith
    then have "d div d \<le> cnt" unfolding cnt_def by (rule div_le_mono)
    then show ?thesis using d by simp
  qed
  have cov: "\<exists>k < length chunks. covers (chunks ! k) w" if w: "w < n" for w
  proof -
    define k where "k = w div d"
    have k: "k < cnt"
    proof -
      have "w + d \<le> n + d - 1" using w by linarith
      then have "(w + d) div d \<le> cnt" unfolding cnt_def by (rule div_le_mono)
      then show ?thesis using d by (simp add: k_def)
    qed
    have "k * d \<le> w" unfolding k_def by (rule div_times_less_eq_dividend)
    then have lo: "int (k * d) \<le> int w" by linarith
    have "w < d + k * d" unfolding k_def using d by (rule dividend_less_div_times)
    then have "int w < int (k * d) + int d" by linarith
    with dS have hi: "int w < int (k * d) + ?S" by linarith
    have wn: "int w < int n" using w by linarith
    have "covers (window_chunk ck words md k (k * d)) w"
      unfolding covers_def start_word_window end_word_window wlen
      using lo hi wn by simp
    then show ?thesis using k nth [OF k] len by auto
  qed
  have first: "start_word (chunks ! 0) = Some (VInt 0)"
    using cnt1 nth [of 0] by simp
  have gap: "\<exists>a b. start_word (chunks ! Suc k) = Some (VInt a)
             \<and> end_word (chunks ! k) = Some (VInt b) \<and> a \<le> b"
    if k: "Suc k < length chunks" for k
  proof -
    have k': "Suc k < cnt" "k < cnt" using k len by simp_all
    have "Suc k * d < n" using d k'(1) unfolding cnt_def by (rule window_starts_in_range)
    then have a: "int (Suc k * d) \<le> int n" by linarith
    have "int (Suc k * d) = int (k * d) + int d" by (simp add: algebra_simps)
    with dS have b: "int (Suc k * d) \<le> int (k * d) + ?S" by linarith
    from a b have "int (Suc k * d) \<le> min (int (k * d) + ?S) (int n)" by simp
    then show ?thesis
      unfolding nth [OF k'(1)] nth [OF k'(2)] start_word_window end_word_window wlen
      by blast
  qed
  have lastw: "end_word (last chunks) = Some (VInt (int n))"
  proof -
    obtain m where m: "cnt = Suc m" using cnt1 by (cases cnt) auto
    have "n + d - 1 < d + cnt * d" unfolding cnt_def using d by (rule dividend_less_div_times)
    then have "n \<le> cnt * d" using d by linarith
    then have "n \<le> m * d + d" by (simp add: m)
    then have "int n \<le> int (m * d) + int d" by linarith
    with dS have e: "int n \<le> int (m * d) + ?S" by linarith
    have "chunks \<noteq> []" using len m by auto
    then have "last chunks = chunks ! m" using len m by (simp add: last_conv_nth)
    also have "\<dots> = window_chunk ck words md m (m * d)" using nth [of m] m by simp
    finally have "last chunks = window_chunk ck words md m (m * d)" .
    then have "end_word (last chunks) = Some (VInt (min (int (m * d) + ?S) (int n)))"
      by (simp only: end_word_window wlen)
    moreover have "min (int (m * d) + ?S) (int n) = int n" using e by linarith
    ultimately show ?thesis by simp
  qed
  have "chunk_text ck text md = Inr chunks
     \<and> int (length chunks) = \<lceil>real n / real_of_int (chunk_size ck - overlap ck)\<rceil>
     \<and> 1 \<le> length chunks
     \<and> (\<forall>w < n. \<exists>k < length chunks. covers (chunks ! k) w)
     \<and> start_word (chunks ! 0) = Some (VInt 0)
     \<and> (\<forall>k. Suc k < length chunks \<longrightarrow>
          (\<exists>a b. start_word (chunks ! Suc k) = Some (VInt a)
             \<and> end_word (chunks ! k) = Some (VInt b) \<and> a \<le> b))
     \<and> end_word (last chunks) = Some (VInt (int n))"
    using ct len ceil cnt1 cov first gap lastw by simp
  then show ?thesis unfolding n_def words_def by (rule exI)
qed

theorem chunk_text_count_and_coverage_witness:
  "0 \<le> overlap \<lparr>chunk_size = 4, overlap = 2\<rparr>
   \<and> overlap \<lparr>chunk_size = 4, overlap = 2\<rparr> < chunk_size \<lparr>chunk_size = 4, overlap = 2\<rparr>
   \<and> py_split ten_words \<noteq> []
   \<and> (\<exists>chunks. chunk_text \<lparr>chunk_size = 4, overlap = 2\<rparr> ten_words [] = Inr chunks
        \<and> length chunks = 5
        \<and> (\<forall>w < 10. \<exists>k < length chunks. covers (chunks ! k) w)
        \<and> end_word (last chunks) = Some (VInt 10))"
proof -
  have h1: "0 \<le> overlap \<lparr>chunk_size = 4, overlap = 2\<rparr>" by simp
  have h2: "overlap \<lparr>chunk_size = 4, overlap = 2\<rparr> < chunk_size \<lparr>chunk_size = 4, overlap = 2\<rparr>"
    by simp
  have h3: "py_split ten_words \<noteq> []" by (simp add: ten_words_split)
  have c: "\<lceil>real (length (py_split ten_words))
            / real_of_int (chunk_size \<lparr>chunk_size = 4, overlap = 2\<rparr>
                            - overlap \<lparr>chunk_size = 4, overlap = 2\<rparr>)\<rceil> = 5"
    by (simp add: ten_words_split)
  have l: "length (py_split ten_words) = 10" by (simp add: ten_words_split)
  show ?thesis
    using chunk_text_count_and_coverage [OF h1 h2 h3, of "[]"] h1 h2 h3
    unfolding c l by auto
qed

text \<open>With a negative overlap the windows are further apart than they are long.\<close>

lemma negative_overlap_leaves_gap:
  "chunk_text \<lparr>chunk_size = 2, overlap = - 1\<rparr> ''a b c'' [] =
     Inr [\<lparr>ctext = ''a b'',
           cmetadata = [(''chunk_index'', VInt 0), (''chunk_size'', VInt 2),
                        (''start_word'', VInt 0), (''end_word'', VInt 2)]\<rparr>]"
  by (simp add: chunk_text_windows py_split_def is_space_def window_chunk_def)

subsection \<open>An overlap that is not below the chunk size\<close>

text \<open>
  C7, as the specification states it, at chunk size 2 with overlap 2 and with overlap 3: the
  constructor accepts both; with overlap 2 \<open>chunk_text\<close> raises on the zero step of its range,
  and with overlap 3 it returns no chunk for a text of three words.
\<close>

theorem chunker_validation_counterexample:
  "text_chunker_init 2 2 = Inr \<lparr>chunk_size = 2, overlap = 2\<rparr>
   \<and> chunk_text \<lparr>chunk_size = 2, overlap = 2\<rparr> ''a b c'' []
       = Inl (ValueError ''range() arg 3 must not be zero'')
   \<and> text_chunker_init 2 3 = Inr \<lparr>chunk_size = 2, overlap = 3\<rparr>
   \<and> chunk_text \<lparr>chunk_size = 2, overlap = 3\<rparr> ''a b c'' [] = Inr []"
  by (simp add: text_chunker_init_def chunk_text_def py_range0_def)

text \<open>
  C7, amended. The constructor of the chunker accepts every chunk size and overlap. When the
  overlap equals the chunk size, \<open>chunk_text\<close> raises \<^verbatim>\<open>ValueError\<close> on every text; when the
  overlap exceeds the chunk size, \<open>chunk_text\<close> returns no chunks on every text.
\<close>

theorem chunker_accepts_any_overlap:
  "text_chunker_init csize ovl = Inr \<lparr>chunk_size = csize, overlap = ovl\<rparr>
   \<and> (ovl = csize \<longrightarrow>
        chunk_text \<lparr>chunk_size = csize, overlap = ovl\<rparr> text md
          = Inl (ValueError ''range() arg 3 must not be zero''))
   \<and> (csize < ovl \<longrightarrow> chunk_text \<lparr>chunk_size = csize, overlap = ovl\<rparr> text md = Inr [])"
  by (simp add: text_chunker_init_def chunk_text_def py_range0_def)

theorem chunker_accepts_any_overlap_witness:
  "text_chunker_init 1000 1000 = Inr \<lparr>chunk_size = 1000, overlap = 1000\<rparr>
   \<and> chunk_text \<lparr>chunk_size = 1000, overlap = 1000\<rparr> ten_words []
       = Inl (ValueError ''range() arg 3 must not be zero'')
   \<and> text_chunker_init 200 1000 = Inr \<lparr>chunk_size = 200, overlap = 1000\<rparr>
   \<and> chunk_text \<lparr>chunk_size = 200, overlap = 1000\<rparr> ten_words [] = Inr []"
  using chunker_accepts_any_overlap [of 1000 1000 ten_words "[]"]
    chunker_accepts_any_overlap [of 200 1000 ten_words "[]"]
  by simp

section \<open>The knowledge store\<close>

subsection \<open>The example store\<close>

lemma hello_split: "py_split ''hello world'' = [''hello'', ''world'']"
  by (simp add: py_split_def is_space_def)

lemma hello_strip: "py_strip ''hello world'' \<noteq> []"
  by (simp add: py_strip_def is_space_def)

lemma notes_process:
  "process_file (notes_env policy) ''notes.txt'' =
     [(''path'', VStr ''notes.txt''), (''name'', VStr ''notes.txt''),
      (''size'', VInt 11), (''modified'', VStr ''2024-01-01T00:00:00''),
      (''extension'', VStr ''.txt''), (''text'', VStr ''hello world''),
      (''word_count'', VInt 2), (''char_count'', VInt 11)]"
  using hello_strip
  by (simp add: process_file_def notes_env_def select_extractor_def py_lower_def lower_char_def
      hello_split)

lemma notes_chunks:
  "chunk_text \<lparr>chunk_size = 1000, overlap = 200\<rparr> ''hello world'' md =
     Inr [\<lparr>ctext = ''hello world'',
           cmetadata = dict_update md
             [(''chunk_index'', VInt 0), (''chunk_size'', VInt 2),
              (''start_word'', VInt 0), (''end_word'', VInt 2)]\<rparr>]"
  by (simp add: chunk_text_windows hello_split window_chunk_def)

lemma str_of_nat_0: "str_of_nat 0 = ''0''"
  by simp

lemma first_add_eval:
  "first_add policy =
    ([(''success'', VBool True),
      (''document_id'', VStr ''a5d5286f1e67b6cd6876223e53f999c4''),
      (''chunks_added'', VInt 1),
      (''metadata'', VDict (process_file (notes_env policy) ''notes.txt''))],
     \<lparr>chunker = \<lparr>chunk_size = 1000, overlap = 200\<rparr>,
      collection =
        [\<lparr>sid = ''a5d5286f1e67b6cd6876223e53f999c4_chunk_0'',
          sembedding = [0, 0, 0], sdocument = ''hello world'',
          smetadata = dict_update (process_file (notes_env policy) ''notes.txt'')
             [(''chunk_index'', VInt 0), (''chunk_size'', VInt 2),
              (''start_word'', VInt 0), (''end_word'', VInt 2)]\<rparr>]\<rparr>)"
proof -
  have env: "md5_hex (notes_env policy) ''notes.txt'' = ''a5d5286f1e67b6cd6876223e53f999c4''"
    "embed (notes_env policy) ts = Inr (map (\<lambda>t. [0, 0, 0]) ts)"
    "collection_add (notes_env policy) = list_collection_add policy"
    "collection_get (notes_env policy) entries ids = Inr (collection_get_ids entries ids)"
    for ts entries ids
    by (simp_all add: notes_env_def)
  have e: "dict_get (process_file (notes_env policy) ''notes.txt'') ''error'' = None"
    "dict_get (process_file (notes_env policy) ''notes.txt'') ''text'' = Some (VStr ''hello world'')"
    by (simp_all add: notes_process dict_get_def)
  show ?thesis
    unfolding first_add_def add_document_def add_document_try_def Let_def e
    by (simp add: rag_init_def collection_get_ids_def notes_chunks store_chunks_def env
        chunk_ids_def add_to_collection_def list_collection_add_def)
qed

lemma second_add_ignore_eval:
  "fst (second_add IgnoreExisting) =
     [(''success'', VBool True),
      (''document_id'', VStr ''a5d5286f1e67b6cd6876223e53f999c4''),
      (''chunks_added'', VInt 1),
      (''metadata'', VDict (process_file (notes_env IgnoreExisting) ''notes.txt''))]
   \<and> snd (second_add IgnoreExisting) = snd (first_add IgnoreExisting)"
proof -
  have env: "md5_hex (notes_env policy) ''notes.txt'' = ''a5d5286f1e67b6cd6876223e53f999c4''"
    "embed (notes_env policy) ts = Inr (map (\<lambda>t. [0, 0, 0]) ts)"
    "collection_add (notes_env policy) = list_collection_add policy"
    "collection_get (notes_env policy) entries ids = Inr (collection_get_ids entries ids)"
    for ts policy entries ids
    by (simp_all add: notes_env_def)
  have e: "dict_get (process_file (notes_env policy) ''notes.txt'') ''error'' = None"
    "dict_get (process_file (notes_env policy) ''notes.txt'') ''text'' = Some (VStr ''hello world'')"
    for policy
    by (simp_all add: notes_process dict_get_def)
  show ?thesis
    unfolding second_add_def first_add_eval add_document_def add_document_try_def Let_def e
    by (simp add: collection_get_ids_def notes_chunks store_chunks_def env
        chunk_ids_def add_to_collection_def list_collection_add_def)
qed

lemma second_add_raise_eval:
  "second_add RaiseOnExisting = (failure ''ID already exists'', snd (first_add RaiseOnExisting))"
proof -
  have env: "md5_hex (notes_env policy) ''notes.txt'' = ''a5d5286f1e67b6cd6876223e53f999c4''"
    "embed (notes_env policy) ts = Inr (map (\<lambda>t. [0, 0, 0]) ts)"
    "collection_add (notes_env policy) = list_collection_add policy"
    "collection_get (notes_env policy) entries ids = Inr (collection_get_ids entries ids)"
    for ts policy entries ids
    by (simp_all add: notes_env_def)
  have e: "dict_get (process_file (notes_env policy) ''notes.txt'') ''error'' = None"
    "dict_get (process_file (notes_env policy) ''notes.txt'') ''text'' = Some (VStr ''hello world'')"
    for policy
    by (simp_all add: notes_process dict_get_def)
  show ?thesis
    unfolding second_add_def first_add_eval add_document_def add_document_try_def Let_def e
    by (simp add: collection_get_ids_def notes_chunks store_chunks_def env
        chunk_ids_def add_to_collection_def list_collection_add_def)
qed

lemma process_file_cong:
  "stat_file env = stat_file env' \<Longrightarrow> extract_text env = extract_text env' \<Longrightarrow>
   process_file env p = process_file env' p"
  by (simp add: process_file_def Let_def split: option.splits)

lemma offline_fields:
  "embed offline_env ts = Inl (OtherException ''model not loaded'')"
  "process_file offline_env p = process_file (notes_env IgnoreExisting) p"
  "md5_hex offline_env = md5_hex (notes_env IgnoreExisting)"
  "collection_get offline_env entries ids = Inr (collection_get_ids entries ids)"
proof -
  show "embed offline_env ts = Inl (OtherException ''model not loaded'')"
    by (simp add: offline_env_def)
  show "process_file offline_env p = process_file (notes_env IgnoreExisting) p"
    by (rule process_file_cong) (simp_all add: offline_env_def)
  show "md5_hex offline_env = md5_hex (notes_env IgnoreExisting)"
    by (simp add: offline_env_def)
  show "collection_get offline_env entries ids = Inr (collection_get_ids entries ids)"
    by (simp add: offline_env_def notes_env_def)
qed

lemma broken_fields:
  "embed broken_store_env ts = Inr (map (\<lambda>t. [0, 0, 0]) ts)"
  "collection_add broken_store_env entries new = Inl (OtherException ''disk I/O error'')"
  "collection_query broken_store_env entries qe n flt = Inl (OtherException ''disk I/O error'')"
  "process_file broken_store_env p = process_file (notes_env IgnoreExisting) p"
  "md5_hex broken_store_env = md5_hex (notes_env IgnoreExisting)"
  "collection_get broken_store_env entries ids = Inl (OtherException ''disk I/O error'')"
proof -
  show "embed broken_store_env ts = Inr (map (\<lambda>t. [0, 0, 0]) ts)"
    by (simp add: broken_store_env_def notes_env_def)
  show "collection_add broken_store_env entries new = Inl (OtherException ''disk I/O error'')"
    by (simp add: broken_store_env_def)
  show "collection_query broken_store_env entries qe n flt = Inl (OtherException ''disk I/O error'')"
    by (simp add: broken_store_env_def)
  show "process_file broken_store_env p = process_file (notes_env IgnoreExisting) p"
    by (rule process_file_cong) (simp_all add: broken_store_env_def)
  show "md5_hex broken_store_env = md5_hex (notes_env IgnoreExisting)"
    by (simp add: broken_store_env_def)
  show "collection_get broken_store_env entries ids = Inl (OtherException ''disk I/O error'')"
    by (simp add: broken_store_env_def)
qed

lemma read_only_fields:
  "embed read_only_store_env ts = Inr (map (\<lambda>t. [0, 0, 0]) ts)"
  "collection_add read_only_store_env entries new = Inl (OtherException ''database is read-only'')"
  "process_file read_only_store_env p = process_file (notes_env IgnoreExisting) p"
  "md5_hex read_only_store_env = md5_hex (notes_env IgnoreExisting)"
  "collection_get read_only_store_env entries ids = Inr (collection_get_ids entries ids)"
proof -
  show "embed read_only_store_env ts = Inr (map (\<lambda>t. [0, 0, 0]) ts)"
    by (simp add: read_only_store_env_def notes_env_def)
  show "collection_add read_only_store_env entries new
      = Inl (OtherException ''database is read-only'')"
    by (simp add: read_only_store_env_def)
  show "process_file read_only_store_env p = process_file (notes_env IgnoreExisting) p"
    by (rule process_file_cong) (simp_all add: read_only_store_env_def)
  show "md5_hex read_only_store_env = md5_hex (notes_env IgnoreExisting)"
    by (simp add: read_only_store_env_def)
  show "collection_get read_only_store_env entries ids = Inr (collection_get_ids entries ids)"
    by (simp add: read_only_store_env_def notes_env_def)
qed

subsection \<open>Adding the same path twice\<close>

text \<open>
  The ids stored for a document are its id followed by \<^verbatim>\<open>_chunk_\<close> and an index, so none of
  them is the document's id, which is the only id that the guard of \<^verbatim>\<open>add_document\<close> looks
  up: after any successful first addition to an empty list collection the guard's lookup
  finds nothing.
\<close>

lemma sid_make_records:
  "set (map sid (make_records ids embs docs metas)) \<subseteq> set ids"
  by (induction ids embs docs metas rule: make_records.induct) auto

lemma doc_id_not_chunk_id: "doc_id \<notin> set (chunk_ids doc_id n)"
  by (auto simp: chunk_ids_def)

lemma guard_blind_to_own_chunks:
  assumes "add_document env r file_path = (res, r')"
    and "dict_get res ''success'' = Some (VBool True)"
    and "collection r = []" "collection_add env = list_collection_add policy"
  shows "collection_get_ids (collection r') [md5_hex env file_path] = []"
proof -
  from assms(1,2) obtain chunks where
    st: "store_chunks env r (md5_hex env file_path) chunks = Inr r'"
    by (auto simp: add_document_def add_document_try_def Let_def failure_def dict_get_def
        split: sum.splits option.splits if_splits pyval.splits)
  then obtain embs where
    "add_to_collection env (collection r) (chunk_ids (md5_hex env file_path) (length chunks)) embs
       (map ctext chunks) (map cmetadata chunks) = Inr (collection r')"
    by (auto simp: store_chunks_def Let_def split: sum.splits)
  then have "collection r' =
      make_records (chunk_ids (md5_hex env file_path) (length chunks)) embs
        (map ctext chunks) (map cmetadata chunks)"
    using assms(3,4)
    by (auto simp: add_to_collection_def list_collection_add_def Let_def split: if_splits)
  then have "set (map sid (collection r')) \<subseteq> set (chunk_ids (md5_hex env file_path) (length chunks))"
    using sid_make_records by simp
  then have "md5_hex env file_path \<notin> set (map sid (collection r'))"
    using doc_id_not_chunk_id by blast
  then show ?thesis
    by (force simp: collection_get_ids_def filter_empty_conv)
qed

text \<open>
  C1. A second \<open>add_document\<close> of a path whose first call succeeded is to be rejected with
  "Document already exists in knowledge base". For \<^verbatim>\<open>notes.txt\<close> (content "hello world") on
  the empty store, the first call succeeds with one chunk, stored under the id
  \<^verbatim>\<open>a5d5286f1e67b6cd6876223e53f999c4_chunk_0\<close>; the guard of the second call looks up
  \<^verbatim>\<open>a5d5286f1e67b6cd6876223e53f999c4\<close> and finds nothing. With a collection that skips stored
  ids the second call returns success with one chunk added; with a collection that raises
  on stored ids it returns the collection's error, not the guard's.
\<close>

theorem second_add_document_passes_guard:
  "dict_get (fst (first_add IgnoreExisting)) ''success'' = Some (VBool True)
   \<and> dict_get (fst (first_add IgnoreExisting)) ''chunks_added'' = Some (VInt 1)
   \<and> map sid (collection (snd (first_add IgnoreExisting)))
       = [''a5d5286f1e67b6cd6876223e53f999c4_chunk_0'']
   \<and> collection_get_ids (collection (snd (first_add IgnoreExisting)))
        [md5_hex (notes_env IgnoreExisting) ''notes.txt''] = []
   \<and> dict_get (fst (second_add IgnoreExisting)) ''success'' = Some (VBool True)
   \<and> dict_get (fst (second_add IgnoreExisting)) ''chunks_added'' = Some (VInt 1)
   \<and> dict_get (fst (second_add IgnoreExisting)) ''error'' = None
   \<and> dict_get (fst (second_add RaiseOnExisting)) ''success'' = Some (VBool False)
   \<and> dict_get (fst (second_add RaiseOnExisting)) ''error'' = Some (VStr ''ID already exists'')"
proof -
  have m: "md5_hex (notes_env IgnoreExisting) ''notes.txt'' = ''a5d5286f1e67b6cd6876223e53f999c4''"
    by (simp add: notes_env_def)
  show ?thesis
    unfolding second_add_raise_eval m
    by (simp add: first_add_eval second_add_ignore_eval dict_get_def collection_get_ids_def
        failure_def)
qed

subsection \<open>Failures of the embedding model and of the collection\<close>

lemma failure_fields:
  "dict_get (failure msg) ''success'' = Some (VBool False)"
  "dict_get (failure msg) ''error'' = Some (VStr msg)"
  by (simp_all add: failure_def dict_get_def)

text \<open>
  C4, as the specification states it, for search: when the embedding model is unreachable,
  a search over a store that holds a matching record returns the empty list, the value that
  a successful search over the empty store returns; with the model reachable the same
  search returns the record.
\<close>

theorem failed_search_counterexample:
  "embed offline_env [''hello''] = Inl (OtherException ''model not loaded'')
   \<and> collection (rag_init [one_record]) = [one_record]
   \<and> search offline_env (rag_init [one_record]) ''hello'' 5 None = []
   \<and> search (notes_env IgnoreExisting) (rag_init []) ''hello'' 5 None = []
   \<and> search (notes_env IgnoreExisting) (rag_init [one_record]) ''hello'' 5 None
       = [\<lparr>result_id = sid one_record, result_text = sdocument one_record,
           result_metadata = smetadata one_record, result_distance = 0\<rparr>]"
  by (simp add: search_def offline_env_def notes_env_def rag_init_def)

text \<open>
  C4, amended. For the write operations \<open>add_document\<close> and \<open>add_text\<close>, a failure of the
  embedding model or of the collection (the lookup of the document id by \<open>add_document\<close>,
  the insertion by both) is returned as the result with success false and the exception's
  message as error. For \<open>search\<close>, a failure of the embedding model or of the collection's
  query is returned as the empty result list.
\<close>

theorem store_failures_reported:
  "(\<forall>chunks e.
      chunk_text (chunker r) raw_text (fst (stamp_metadata env h m)) = Inr chunks
      \<and> embed env (map ctext chunks) = Inl e
      \<longrightarrow> fst (add_text env r h raw_text m) = failure (exc_str e))
   \<and> (\<forall>chunks embs e.
      chunk_text (chunker r) raw_text (fst (stamp_metadata env h m)) = Inr chunks
      \<and> embed env (map ctext chunks) = Inr embs
      \<and> add_to_collection env (collection r) (chunk_ids (md5_hex env raw_text) (length chunks)) embs
            (map ctext chunks) (map cmetadata chunks) = Inl e
      \<longrightarrow> fst (add_text env r h raw_text m) = failure (exc_str e))
   \<and> (\<forall>e.
      dict_get (process_file env p) ''error'' = None
      \<and> collection_get env (collection r) [md5_hex env p] = Inl e
      \<longrightarrow> add_document env r p = (failure (exc_str e), r))
   \<and> (\<forall>body chunks e.
      dict_get (process_file env p) ''error'' = None
      \<and> dict_get (process_file env p) ''text'' = Some (VStr body)
      \<and> collection_get env (collection r) [md5_hex env p] = Inr []
      \<and> chunk_text (chunker r) body (process_file env p) = Inr chunks
      \<and> embed env (map ctext chunks) = Inl e
      \<longrightarrow> add_document env r p = (failure (exc_str e), r))
   \<and> (\<forall>body chunks embs e.
      dict_get (process_file env p) ''error'' = None
      \<and> dict_get (process_file env p) ''text'' = Some (VStr body)
      \<and> collection_get env (collection r) [md5_hex env p] = Inr []
      \<and> chunk_text (chunker r) body (process_file env p) = Inr chunks
      \<and> embed env (map ctext chunks) = Inr embs
      \<and> add_to_collection env (collection r) (chunk_ids (md5_hex env p) (length chunks)) embs
            (map ctext chunks) (map cmetadata chunks) = Inl e
      \<longrightarrow> add_document env r p = (failure (exc_str e), r))
   \<and> (\<forall>msg. dict_get (failure msg) ''success'' = Some (VBool False)
             \<and> dict_get (failure msg) ''error'' = Some (VStr msg))
   \<and> (\<forall>e. embed env [q] = Inl e \<longrightarrow> search env r q n flt = [])
   \<and> (\<forall>qe others e.
      embed env [q] = Inr (qe # others) \<and> collection_query env (collection r) qe n flt = Inl e
      \<longrightarrow> search env r q n flt = [])"
proof -
  have t1: "fst (add_text env r h raw_text m) = failure (exc_str e)"
    if "chunk_text (chunker r) raw_text (fst (stamp_metadata env h m)) = Inr chunks"
      "embed env (map ctext chunks) = Inl e" for chunks e
    using that
    by (simp add: add_text_def add_text_try_def store_chunks_def Let_def case_prod_beta)
  have t2: "fst (add_text env r h raw_text m) = failure (exc_str e)"
    if "chunk_text (chunker r) raw_text (fst (stamp_metadata env h m)) = Inr chunks"
      "embed env (map ctext chunks) = Inr embs"
      "add_to_collection env (collection r) (chunk_ids (md5_hex env raw_text) (length chunks)) embs
            (map ctext chunks) (map cmetadata chunks) = Inl e" for chunks embs e
    using that
    by (simp add: add_text_def add_text_try_def store_chunks_def Let_def case_prod_beta)
  have d0: "add_document env r p = (failure (exc_str e), r)"
    if "dict_get (process_file env p) ''error'' = None"
      "collection_get env (collection r) [md5_hex env p] = Inl e" for e
    using that
    by (simp add: add_document_def add_document_try_def Let_def)
  have d1: "add_document env r p = (failure (exc_str e), r)"
    if "dict_get (process_file env p) ''error'' = None"
      "dict_get (process_file env p) ''text'' = Some (VStr body)"
      "collection_get env (collection r) [md5_hex env p] = Inr []"
      "chunk_text (chunker r) body (process_file env p) = Inr chunks"
      "embed env (map ctext chunks) = Inl e" for body chunks e
    using that
    by (simp add: add_document_def add_document_try_def store_chunks_def Let_def)
  have d2: "add_document env r p = (failure (exc_str e), r)"
    if "dict_get (process_file env p) ''error'' = None"
      "dict_get (process_file env p) ''text'' = Some (VStr body)"
      "collection_get env (collection r) [md5_hex env p] = Inr []"
      "chunk_text (chunker r) body (process_file env p) = Inr chunks"
      "embed env (map ctext chunks) = Inr embs"
      "add_to_collection env (collection r) (chunk_ids (md5_hex env p) (length chunks)) embs
            (map ctext chunks) (map cmetadata chunks) = Inl e" for body chunks embs e
    using that
    by (simp add: add_document_def add_document_try_def store_chunks_def Let_def)
  have s1: "search env r q n flt = []" if "embed env [q] = Inl e" for e
    using that by (simp add: search_def)
  have s2: "search env r q n flt = []"
    if "embed env [q] = Inr (qe # others)" "collection_query env (collection r) qe n flt = Inl e"
    for qe others e
    using that by (simp add: search_def)
  show ?thesis
    using t1 t2 d0 d1 d2 s1 s2 failure_fields by blast
qed

theorem store_failures_reported_witness:
  "fst (add_text offline_env (rag_init []) Map.empty ''hello world'' None)
     = failure ''model not loaded''
   \<and> fst (add_text broken_store_env (rag_init []) Map.empty ''hello world'' None)
     = failure ''disk I/O error''
   \<and> add_document broken_store_env (rag_init []) ''notes.txt''
     = (failure ''disk I/O error'', rag_init [])
   \<and> add_document offline_env (rag_init []) ''notes.txt''
     = (failure ''model not loaded'', rag_init [])
   \<and> add_document read_only_store_env (rag_init []) ''notes.txt''
     = (failure ''database is read-only'', rag_init [])
   \<and> search offline_env (rag_init []) ''hello'' 5 None = []
   \<and> search broken_store_env (rag_init []) ''hello'' 5 None = []"
proof -
  let ?r = "rag_init []"
  define c where "c md = \<lparr>ctext = ''hello world'',
           cmetadata = dict_update md
             [(''chunk_index'', VInt 0), (''chunk_size'', VInt 2),
              (''start_word'', VInt 0), (''end_word'', VInt 2)]\<rparr>" for md
  have ch: "chunk_text (chunker ?r) ''hello world'' md = Inr [c md]" for md
    by (simp add: rag_init_def notes_chunks c_def)
  have pe: "dict_get (process_file (notes_env IgnoreExisting) ''notes.txt'') ''error'' = None"
    and pt: "dict_get (process_file (notes_env IgnoreExisting) ''notes.txt'') ''text''
       = Some (VStr ''hello world'')"
    by (simp_all add: notes_process dict_get_def)
  have g: "collection_get_ids (collection ?r) ids = []" for ids
    by (simp add: rag_init_def collection_get_ids_def)
  have ad: "add_to_collection broken_store_env (collection ?r) (chunk_ids d (length [c md]))
      (map (\<lambda>t. [0, 0, 0]) (map ctext [c md])) (map ctext [c md]) (map cmetadata [c md])
      = Inl (OtherException ''disk I/O error'')" for d md
    by (simp add: add_to_collection_def broken_fields chunk_ids_def)
  have ad': "add_to_collection read_only_store_env (collection ?r) (chunk_ids d (length [c md]))
      (map (\<lambda>t. [0, 0, 0]) (map ctext [c md])) (map ctext [c md]) (map cmetadata [c md])
      = Inl (OtherException ''database is read-only'')" for d md
    by (simp add: add_to_collection_def read_only_fields chunk_ids_def)
  note A = store_failures_reported [where env = "offline_env" and r = "rag_init []"
      and raw_text = "''hello world''" and h = "Map.empty" and m = "None" and p = "''notes.txt''"
      and q = "''hello''" and n = "5" and flt = "None"]
  note A' = store_failures_reported [where env = "broken_store_env" and r = "rag_init []"
      and raw_text = "''hello world''" and h = "Map.empty" and m = "None" and p = "''notes.txt''"
      and q = "''hello''" and n = "5" and flt = "None"]
  note A'' = store_failures_reported [where env = "read_only_store_env" and r = "rag_init []"
      and raw_text = "''hello world''" and h = "Map.empty" and m = "None" and p = "''notes.txt''"
      and q = "''hello''" and n = "5" and flt = "None"]
  let ?pf = "process_file (notes_env IgnoreExisting) ''notes.txt''"
  let ?md = "fst (stamp_metadata offline_env Map.empty None)"
  let ?md' = "fst (stamp_metadata broken_store_env Map.empty None)"
  let ?e = "OtherException ''model not loaded''"
  let ?e' = "OtherException ''disk I/O error''"
  let ?e'' = "OtherException ''database is read-only''"
  have a1: "fst (add_text offline_env ?r Map.empty ''hello world'' None) = failure (exc_str ?e)"
    using A [THEN conjunct1, rule_format, of "[c ?md]" ?e] ch offline_fields(1) by simp
  have a4: "add_document offline_env ?r ''notes.txt'' = (failure (exc_str ?e), ?r)"
    using A [THEN conjunct2, THEN conjunct2, THEN conjunct2, THEN conjunct1, rule_format,
        of "''hello world''" "[c ?pf]" ?e]
      ch offline_fields pe pt g by simp
  have a7: "search offline_env ?r ''hello'' 5 None = []"
    using A [THEN conjunct2, THEN conjunct2, THEN conjunct2, THEN conjunct2, THEN conjunct2,
        THEN conjunct2, THEN conjunct1, rule_format, of ?e] offline_fields(1) by simp
  have b2: "fst (add_text broken_store_env ?r Map.empty ''hello world'' None)
     = failure (exc_str ?e')"
    using A' [THEN conjunct2, THEN conjunct1, rule_format,
        of "[c ?md']" "map (\<lambda>t. [0, 0, 0]) (map ctext [c ?md'])" ?e']
      ch broken_fields(1) ad by simp
  have b3: "add_document broken_store_env ?r ''notes.txt'' = (failure (exc_str ?e'), ?r)"
    using A' [THEN conjunct2, THEN conjunct2, THEN conjunct1, rule_format, of ?e']
      broken_fields(4,6) pe by simp
  have b8: "search broken_store_env ?r ''hello'' 5 None = []"
    using A' [THEN conjunct2, THEN conjunct2, THEN conjunct2, THEN conjunct2, THEN conjunct2,
        THEN conjunct2, THEN conjunct2, rule_format, of "[0, 0, 0]" "[]" ?e']
      broken_fields(1,3) by simp
  have c5: "add_document read_only_store_env ?r ''notes.txt'' = (failure (exc_str ?e''), ?r)"
    using A'' [THEN conjunct2, THEN conjunct2, THEN conjunct2, THEN conjunct2, THEN conjunct1,
        rule_format,
        of "''hello world''" "[c ?pf]" "map (\<lambda>t. [0, 0, 0]) (map ctext [c ?pf])" ?e'']
      ch read_only_fields pe pt g ad' by simp
  from a1 a4 a7 b2 b3 b8 c5 show ?thesis by simp
qed

subsection \<open>The caller's metadata\<close>

text \<open>
  C9. \<open>add_text\<close> called with the address of a dictionary updates that dictionary in place
  before it chunks: whatever the rest of the call does (also when the embedding or the
  insertion fails), afterwards the caller's dictionary has source "manual_input", added_at
  the current time and type "text", every other key as before, and no other object of the
  heap has changed.
\<close>

theorem add_text_mutates_metadata:
  assumes "h a = Some d"
  shows "\<exists>res r' h'. add_text env r h raw_text (Some a) = (res, r', h')
     \<and> h' a = Some (dict_update d (manual_input_stamp env))
     \<and> dict_get (dict_update d (manual_input_stamp env)) ''source'' = Some (VStr ''manual_input'')
     \<and> dict_get (dict_update d (manual_input_stamp env)) ''added_at''
         = Some (VStr (now_isoformat env))
     \<and> dict_get (dict_update d (manual_input_stamp env)) ''type'' = Some (VStr ''text'')
     \<and> (\<forall>k. k \<noteq> ''source'' \<and> k \<noteq> ''added_at'' \<and> k \<noteq> ''type'' \<longrightarrow>
           dict_get (dict_update d (manual_input_stamp env)) k = dict_get d k)
     \<and> (\<forall>b. b \<noteq> a \<longrightarrow> h' b = h b)"
proof -
  define md where "md = dict_update d (manual_input_stamp env)"
  define h' where "h' = h(a \<mapsto> md)"
  have st: "stamp_metadata env h (Some a) = (md, h')"
    using assms by (simp add: stamp_metadata_def Let_def md_def h'_def)
  obtain res r' where at: "add_text env r h raw_text (Some a) = (res, r', h')"
    unfolding add_text_def st by (cases "add_text_try env r raw_text md") auto
  have ha: "h' a = Some md" by (simp add: h'_def)
  have hb: "\<forall>b. b \<noteq> a \<longrightarrow> h' b = h b" by (simp add: h'_def)
  have dg: "dict_get md k =
      (if k = ''type'' then Some (VStr ''text'')
       else if k = ''added_at'' then Some (VStr (now_isoformat env))
       else if k = ''source'' then Some (VStr ''manual_input'')
       else dict_get d k)" for k
    by (simp add: md_def manual_input_stamp_def dict_get_set)
  have k1: "dict_get md ''source'' = Some (VStr ''manual_input'')" by (simp add: dg)
  have k2: "dict_get md ''added_at'' = Some (VStr (now_isoformat env))" by (simp add: dg)
  have k3: "dict_get md ''type'' = Some (VStr ''text'')" by (simp add: dg)
  have k4: "\<forall>k. k \<noteq> ''source'' \<and> k \<noteq> ''added_at'' \<and> k \<noteq> ''type'' \<longrightarrow> dict_get md k = dict_get d k"
    by (simp add: dg)
  show ?thesis
    unfolding md_def [symmetric]
    by (rule exI [of _ res], rule exI [of _ r'], rule exI [of _ h'])
       (intro conjI at ha hb k1 k2 k3 k4)
qed

theorem add_text_mutates_metadata_witness:
  "sample_heap 0 = Some [(''source'', VStr ''test''), (''type'', VStr ''sample'')]
   \<and> (\<exists>res r' h'. add_text offline_env (rag_init []) sample_heap ''hello world'' (Some 0) = (res, r', h')
        \<and> h' 0 = Some [(''source'', VStr ''manual_input''), (''type'', VStr ''text''),
                       (''added_at'', VStr ''2024-01-01T00:00:00'')])"
proof -
  have h0: "sample_heap 0 = Some [(''source'', VStr ''test''), (''type'', VStr ''sample'')]"
    by (simp add: sample_heap_def)
  have upd: "dict_update [(''source'', VStr ''test''), (''type'', VStr ''sample'')]
       (manual_input_stamp offline_env)
     = [(''source'', VStr ''manual_input''), (''type'', VStr ''text''),
        (''added_at'', VStr ''2024-01-01T00:00:00'')]"
    by (simp add: manual_input_stamp_def offline_env_def notes_env_def)
  obtain res r' h' where
    a: "add_text offline_env (rag_init []) sample_heap ''hello world'' (Some 0) = (res, r', h')"
    and b: "h' 0 = Some (dict_update [(''source'', VStr ''test''), (''type'', VStr ''sample'')]
                          (manual_input_stamp offline_env))"
    using add_text_mutates_metadata [where h = "sample_heap" and a = "0" and env = "offline_env"
        and r = "rag_init []" and raw_text = "''hello world''", OF h0]
    by (elim exE conjE)
  from b have b': "h' 0 = Some [(''source'', VStr ''manual_input''), (''type'', VStr ''text''),
                       (''added_at'', VStr ''2024-01-01T00:00:00'')]"
    by (simp only: upd)
  show ?thesis
    by (rule conjI [OF h0], rule exI [of _ res], rule exI [of _ r'], rule exI [of _ h'])
       (intro conjI a b')
qed

section \<open>The transcript\<close>

subsection \<open>Strings\<close>

lemma small_nat_cases:
  assumes "k < 16"
  obtains "k = 0" | "k = 1" | "k = 2" | "k = 3" | "k = 4" | "k = 5" | "k = 6" | "k = 7"
    | "k = 8" | "k = 9" | "k = 10" | "k = 11" | "k = 12" | "k = 13" | "k = 14" | "k = (15::nat)"
  using assms by (atomize_elim, arith)

lemma hex_val_hex_digit: "k < 16 \<Longrightarrow> hex_val (hex_digit k) = Some k"
  by (erule small_nat_cases) (simp_all add: hex_val_def hex_digit_def)

lemma hex_digit_plain:
  "k < 16 \<Longrightarrow> hex_digit k \<noteq> CHR 0x0A \<and> hex_digit k \<noteq> CHR 0x0D"
  by (erule small_nat_cases) (simp_all add: hex_digit_def)

lemma hex4_control:
  assumes "n < 32"
  shows "hex4 (CHR ''0'') (CHR ''0'') (hex_digit (n div 16)) (hex_digit (n mod 16)) = Some n"
proof -
  have a: "n div 16 < 16" using assms by simp
  have b: "n mod 16 < 16" by simp
  have z: "hex_val (CHR ''0'') = Some 0" by (simp add: hex_val_def)
  show ?thesis
    by (simp add: hex4_def z hex_val_hex_digit [OF a] hex_val_hex_digit [OF b])
qed

lemma scan_escape_char:
  "scan_string (escape_char c @ rest) = cons_result c (scan_string rest)"
proof -
  have bq: "backslash \<noteq> dquote" by (simp add: backslash_def dquote_def)
  consider (q) "c = dquote" | (b) "c = backslash" | (n) "c = CHR 0x0A" | (r) "c = CHR 0x0D"
    | (t) "c = CHR 0x09" | (bs) "c = CHR 0x08" | (f) "c = CHR 0x0C"
    | (ctl) "c \<noteq> dquote" "c \<noteq> backslash" "c \<noteq> CHR 0x0A" "c \<noteq> CHR 0x0D" "c \<noteq> CHR 0x09"
        "c \<noteq> CHR 0x08" "c \<noteq> CHR 0x0C" "(of_char c :: nat) < 32"
    | (plain) "c \<noteq> dquote" "c \<noteq> backslash" "\<not> (of_char c :: nat) < 32"
        "c \<noteq> CHR 0x0A" "c \<noteq> CHR 0x0D" "c \<noteq> CHR 0x09" "c \<noteq> CHR 0x08" "c \<noteq> CHR 0x0C"
    by (cases "(of_char c :: nat) < 32") auto
  then show ?thesis
  proof cases
    case q
    then show ?thesis by (simp add: escape_char_def unescape_def backslash_def dquote_def)
  next
    case b
    then show ?thesis by (simp add: escape_char_def bq unescape_def backslash_def dquote_def)
  next
    case n
    then show ?thesis by (simp add: escape_char_def unescape_def backslash_def dquote_def)
  next
    case r
    then show ?thesis by (simp add: escape_char_def unescape_def backslash_def dquote_def)
  next
    case t
    then show ?thesis by (simp add: escape_char_def unescape_def backslash_def dquote_def)
  next
    case bs
    then show ?thesis by (simp add: escape_char_def unescape_def backslash_def dquote_def)
  next
    case f
    then show ?thesis by (simp add: escape_char_def unescape_def backslash_def dquote_def)
  next
    case ctl
    have e: "escape_char c = [backslash, CHR ''u'', CHR ''0'', CHR ''0'',
              hex_digit ((of_char c :: nat) div 16), hex_digit ((of_char c :: nat) mod 16)]"
      using ctl by (simp add: escape_char_def)
    have lt: "(of_char c :: nat) < 128" using ctl(8) by simp
    show ?thesis
      unfolding e using hex4_control [OF ctl(8)] lt bq by simp
  next
    case plain
    then show ?thesis by (simp add: escape_char_def)
  qed
qed

lemma scan_escaped:
  "scan_string (concat (map escape_char s) @ dquote # rest) = Some (s, rest)"
  by (induction s) (simp_all add: scan_escape_char cons_result_def)

subsection \<open>Messages\<close>

lemma scan_escaped': "scan_string (escaped s @ dquote # rest) = Some (s, rest)"
  unfolding escaped_def by (rule scan_escaped)

lemma escaped_role: "escaped ''role'' = ''role''"
  by (simp add: escaped_def escape_char_def dquote_def backslash_def)

lemma escaped_content: "escaped ''content'' = ''content''"
  by (simp add: escaped_def escape_char_def dquote_def backslash_def)

lemma dumps_shape:
  "json_dumps_message m =
     CHR ''{'' # dquote # escaped ''role'' @ dquote # CHR '':'' # CHR '' '' # dquote #
       escaped (role m) @ dquote # CHR '','' # CHR '' '' # dquote # escaped ''content'' @ dquote #
       CHR '':'' # CHR '' '' # dquote # escaped (content m) @ dquote # ''}''"
  by (simp add: json_dumps_message_def json_dumps_str_def escaped_def)

lemma skip_ws_keep: "\<not> json_space c \<Longrightarrow> skip_ws (c # s) = c # s"
  by (simp add: skip_ws_def)

lemma skip_ws_blank: "skip_ws (CHR '' '' # s) = skip_ws s"
  by (simp add: skip_ws_def json_space_def)

lemma skip_ws_Nil: "skip_ws [] = []"
  by (simp add: skip_ws_def)

lemma token_chars:
  "\<not> json_space dquote" "\<not> json_space (CHR ''{'')" "\<not> json_space (CHR ''}'')"
  "\<not> json_space (CHR '':'')" "\<not> json_space (CHR '','')"
  "dquote \<noteq> CHR ''}''" "dquote \<noteq> CHR '':''" "dquote \<noteq> CHR '',''"
  by (simp_all add: json_space_def dquote_def)

lemma parse_last_member:
  "parse_members (Suc fuel) (dquote # escaped k @ dquote # CHR '':'' # CHR '' '' # dquote #
       escaped v @ dquote # ''}'') acc = Inr (acc @ [(k, v)])"
  by (simp add: skip_ws_keep skip_ws_blank skip_ws_Nil token_chars scan_escaped')

lemma parse_inner_member:
  "parse_members (Suc fuel) (dquote # escaped k @ dquote # CHR '':'' # CHR '' '' # dquote #
       escaped v @ dquote # CHR '','' # CHR '' '' # rest) acc
     = parse_members fuel (CHR '' '' # rest) (acc @ [(k, v)])"
  by (simp add: skip_ws_keep skip_ws_blank skip_ws_Nil token_chars scan_escaped')

lemma parse_members_blank:
  "parse_members (Suc fuel) (CHR '' '' # rest) acc = parse_members (Suc fuel) rest acc"
  by (simp add: skip_ws_blank)

lemma loads_dumps:
  "json_loads_object (json_dumps_message m) = Inr [(''role'', role m), (''content'', content m)]"
proof -
  define tail2 where "tail2 = dquote # escaped ''content'' @ dquote #
          CHR '':'' # CHR '' '' # dquote # escaped (content m) @ dquote # ''}''"
  define body where "body = dquote # escaped ''role'' @ dquote # CHR '':'' # CHR '' '' # dquote #
          escaped (role m) @ dquote # CHR '','' # CHR '' '' # tail2"
  have shape: "json_dumps_message m = CHR ''{'' # body"
    unfolding body_def tail2_def by (rule dumps_shape)
  obtain fuel where fuel: "length (json_dumps_message m) = Suc (Suc fuel)"
    by (simp add: dumps_shape)
  have sk: "skip_ws body = body"
    unfolding body_def by (simp add: skip_ws_keep token_chars)
  have hd: "body = dquote # tl body" by (simp add: body_def)
  have "json_loads_object (json_dumps_message m) = parse_members (Suc (Suc fuel)) body []"
  proof -
    have s1: "skip_ws (CHR ''{'' # body) = CHR ''{'' # body"
      by (simp add: skip_ws_keep token_chars)
    have s2: "skip_ws body = dquote # tl body" using sk hd by simp
    show ?thesis
      unfolding json_loads_object_def fuel
      unfolding shape
      by (simp add: s1 s2 token_chars)
  qed
  also have "\<dots> = parse_members (Suc fuel) (CHR '' '' # tail2) ([] @ [(''role'', role m)])"
    unfolding body_def by (rule parse_inner_member)
  also have "\<dots> = parse_members (Suc fuel) tail2 ([] @ [(''role'', role m)])"
    by (rule parse_members_blank)
  also have "\<dots> = Inr (([] @ [(''role'', role m)]) @ [(''content'', content m)])"
    unfolding tail2_def by (rule parse_last_member)
  finally show ?thesis by simp
qed

subsection \<open>Lines\<close>

lemma escape_char_no_newline:
  "CHR 0x0A \<notin> set (escape_char c) \<and> CHR 0x0D \<notin> set (escape_char c)"
proof (cases "(of_char c :: nat) < 32")
  case True
  then have "(of_char c :: nat) div 16 < 16" by simp
  then have a: "hex_digit ((of_char c :: nat) div 16) \<noteq> CHR 0x0A"
    "hex_digit ((of_char c :: nat) div 16) \<noteq> CHR 0x0D"
    using hex_digit_plain by blast+
  have "(of_char c :: nat) mod 16 < 16" by simp
  then have b: "hex_digit ((of_char c :: nat) mod 16) \<noteq> CHR 0x0A"
    "hex_digit ((of_char c :: nat) mod 16) \<noteq> CHR 0x0D"
    using hex_digit_plain by blast+
  show ?thesis
    using a b a [symmetric] b [symmetric]
    by (simp add: escape_char_def backslash_def dquote_def)
next
  case False
  then show ?thesis by (auto simp: escape_char_def backslash_def dquote_def)
qed

lemma escaped_no_newline:
  "CHR 0x0A \<notin> set (escaped s) \<and> CHR 0x0D \<notin> set (escaped s)"
  using escape_char_no_newline by (induction s) (auto simp: escaped_def)

lemma dumps_no_newline:
  "CHR 0x0A \<notin> set (json_dumps_message m) \<and> CHR 0x0D \<notin> set (json_dumps_message m)"
  using escaped_no_newline [of "role m"] escaped_no_newline [of "content m"]
  by (simp add: dumps_shape escaped_role escaped_content dquote_def)

lemma read_lines_line:
  "CHR 0x0A \<notin> set l \<Longrightarrow>
   read_lines cur (l @ CHR 0x0A # rest) = (cur @ l @ [CHR 0x0A]) # read_lines [] rest"
  by (induction l arbitrary: cur) auto

lemma join_concat:
  "xs \<noteq> [] \<Longrightarrow> py_join sep xs @ sep = concat (map (\<lambda>x. x @ sep) xs)"
  by (induction sep xs rule: py_join.induct) auto

lemma read_lines_concat:
  "\<forall>l\<in>set ls. CHR 0x0A \<notin> set l \<Longrightarrow>
   read_lines [] (concat (map (\<lambda>l. l @ newline) ls)) = map (\<lambda>l. l @ newline) ls"
  by (induction ls) (simp_all add: newline_def read_lines_line)

lemma universal_newlines_id:
  "CHR 0x0D \<notin> set s \<Longrightarrow> universal_newlines s = s"
  by (induction s rule: universal_newlines.induct) auto

lemma py_strip_framed:
  assumes "\<not> is_space a" "\<not> is_space b"
  shows "py_strip (a # mid @ [b, CHR 0x0A]) = a # mid @ [b]"
proof -
  have sp: "is_space (CHR 0x0A)" by (simp add: is_space_def)
  show ?thesis using assms sp by (simp add: py_strip_def)
qed

lemma strip_line: "py_strip (json_dumps_message m @ newline) = json_dumps_message m"
proof -
  define mid where "mid = json_dumps_str ''role'' @ '': '' @ json_dumps_str (role m) @ '', ''
       @ json_dumps_str ''content'' @ '': '' @ json_dumps_str (content m)"
  have sh: "json_dumps_message m = CHR ''{'' # mid @ [CHR ''}'']"
    by (simp add: json_dumps_message_def mid_def)
  have "py_strip (CHR ''{'' # mid @ [CHR ''}'', CHR 0x0A]) = CHR ''{'' # mid @ [CHR ''}'']"
    by (rule py_strip_framed) (simp_all add: is_space_def)
  then show ?thesis by (simp add: sh newline_def)
qed

lemma transcript_lines:
  "py_readlines (universal_newlines (transcript_as_jsonl msgs)) =
     (if msgs = [] then [newline] else map (\<lambda>m. json_dumps_message m @ newline) msgs)"
proof (cases "msgs = []")
  case True
  then show ?thesis
    by (simp add: transcript_as_jsonl_def newline_def py_readlines_def)
next
  case False
  have t: "transcript_as_jsonl msgs = concat (map (\<lambda>l. l @ newline) (map json_dumps_message msgs))"
    unfolding transcript_as_jsonl_def using False by (intro join_concat) simp
  have "CHR 0x0D \<notin> set (transcript_as_jsonl msgs)"
    unfolding t using dumps_no_newline by (auto simp: newline_def)
  then have u: "universal_newlines (transcript_as_jsonl msgs) = transcript_as_jsonl msgs"
    by (rule universal_newlines_id)
  have "read_lines [] (concat (map (\<lambda>l. l @ newline) (map json_dumps_message msgs)))
      = map (\<lambda>l. l @ newline) (map json_dumps_message msgs)"
    using dumps_no_newline by (intro read_lines_concat) auto
  then have "py_readlines (universal_newlines (transcript_as_jsonl msgs))
      = map (\<lambda>l. l @ newline) (map json_dumps_message msgs)"
    unfolding u py_readlines_def by (simp only: t)
  then show ?thesis
    using False by (simp add: comp_def)
qed

lemma load_lines_cons:
  "load_lines ((json_dumps_message m @ newline) # ls) =
     (case load_lines ls of
        Inl e \<Rightarrow> Inl e
      | Inr shown \<Rightarrow>
          if role m = ''user'' then Inr (\<lparr>role = ''user'', content = content m\<rparr> # shown)
          else if role m = ''assistant''
            then Inr (\<lparr>role = ''assistant'', content = content m\<rparr> # shown)
          else Inr shown)"
proof -
  have ne: "json_dumps_message m \<noteq> []" by (simp add: dumps_shape)
  have og: "object_get [(''role'', role m), (''content'', content m)] ''role'' = Some (role m)"
    "object_get [(''role'', role m), (''content'', content m)] ''content'' = Some (content m)"
    by (simp_all add: object_get_def)
  show ?thesis
    by (simp add: strip_line loads_dumps og ne Let_def split: sum.split)
qed

lemma load_lines_dumps:
  "list_all from_chat msgs \<Longrightarrow>
   load_lines (map (\<lambda>m. json_dumps_message m @ newline) msgs) = Inr msgs"
proof (induction msgs)
  case Nil
  then show ?case by simp
next
  case (Cons m msgs)
  from Cons.prems have fc: "role m = ''user'' \<or> role m = ''assistant''"
    and rest: "list_all from_chat msgs" by (simp_all add: from_chat_def [abs_def])
  have ih: "load_lines (map (\<lambda>m. json_dumps_message m @ newline) msgs) = Inr msgs"
    using rest by (rule Cons.IH)
  from fc show ?case
  proof
    assume u: "role m = ''user''"
    then have "\<lparr>role = ''user'', content = content m\<rparr> = m" by simp
    then show ?thesis by (simp add: load_lines_cons ih u del: load_lines.simps)
  next
    assume a: "role m = ''assistant''"
    then have "\<lparr>role = ''assistant'', content = content m\<rparr> = m" by simp
    then show ?thesis by (simp add: load_lines_cons ih a del: load_lines.simps)
  qed
qed

lemma load_blank: "load_lines [newline] = Inr []"
  by (simp add: newline_def py_strip_def is_space_def)

lemma sample_from_chat: "list_all from_chat sample_conversation"
  by (simp add: sample_conversation_def add_user_def add_assistant_def from_chat_def)

subsection \<open>The round trip\<close>

text \<open>
  C8. For every conversation of \<open>M\<close> messages of a chat session (each added by \<open>add_user\<close> or
  \<open>add_assistant\<close>), the transcript holds one JSON object with the members role and content
  per message, each on a line of its own that ends in a newline, and no object contains a
  line break; reading the transcript back line by line, as \<open>load_conversation\<close> does, yields
  exactly the \<open>M\<close> messages with their roles and contents in the original order. For
  \<open>M = 0\<close> the transcript is the single empty line, which the loader skips.
\<close>

theorem transcript_round_trip:
  assumes "list_all from_chat msgs"
  shows "load_conversation (transcript_as_jsonl msgs) = Inr msgs
     \<and> py_readlines (universal_newlines (transcript_as_jsonl msgs)) =
         (if msgs = [] then [newline] else map (\<lambda>m. json_dumps_message m @ newline) msgs)
     \<and> (\<forall>m. CHR 0x0A \<notin> set (json_dumps_message m)
            \<and> json_loads_object (json_dumps_message m)
                = Inr [(''role'', role m), (''content'', content m)])"
proof -
  have "load_conversation (transcript_as_jsonl msgs) = Inr msgs"
    unfolding load_conversation_def transcript_lines
    using assms load_lines_dumps load_blank by (cases "msgs = []") simp_all
  then show ?thesis
    using transcript_lines dumps_no_newline loads_dumps by simp
qed

theorem transcript_round_trip_witness:
  "list_all from_chat sample_conversation
   \<and> length sample_conversation = 2
   \<and> load_conversation (transcript_as_jsonl sample_conversation) = Inr sample_conversation"
  using transcript_round_trip [OF sample_from_chat] sample_from_chat
  by (simp add: sample_conversation_def add_user_def add_assistant_def)

end
